theory Spec2Isabelle
  imports Main
begin

section \<open>Python values\<close>

text \<open>
  A Python \<open>str\<close> is a sequence of Unicode code points; it is modelled as a list of
  natural numbers. \<open>u\<close> turns an ASCII literal into such a list.
\<close>

type_synonym pystr = "nat list"

definition u :: "string \<Rightarrow> pystr" where
  "u s = map of_char s"

text \<open>
  A float read by \<open>json.loads\<close>: a finite value \<open>m * 2 ^ e\<close>, an infinity (with its
  sign) or a NaN. Only its truth value is ever inspected by the program.
\<close>

datatype pyfloat = Finite int int | Infinity bool | NaN

text \<open>
  What \<open>json.loads\<close> returns: \<open>None\<close>, a bool, an int, a float, a str, a list or a
  dict with str keys. A dict is an association list; the first binding of a key counts.
\<close>

datatype json =
    JNull
  | JBool bool
  | JInt int
  | JFloat pyfloat
  | JStr pystr
  | JArr "json list"
  | JObj "(pystr \<times> json) list"

datatype error = AttributeError | TypeError | ValueError | IndexError | JSONDecodeError | OtherError

definition bind :: "error + 'a \<Rightarrow> ('a \<Rightarrow> error + 'b) \<Rightarrow> error + 'b" where
  "bind m f = (case m of Inl e \<Rightarrow> Inl e | Inr x \<Rightarrow> f x)"

text \<open>Python's truth value of an object, as \<open>if x:\<close> and \<open>not x\<close> test it.\<close>

fun truthy :: "json \<Rightarrow> bool" where
  "truthy JNull = False"
| "truthy (JBool b) = b"
| "truthy (JInt i) = (i \<noteq> 0)"
| "truthy (JFloat (Finite m e)) = (m \<noteq> 0)"
| "truthy (JFloat (Infinity s)) = True"
| "truthy (JFloat NaN) = True"
| "truthy (JStr s) = (s \<noteq> [])"
| "truthy (JArr xs) = (xs \<noteq> [])"
| "truthy (JObj kvs) = (kvs \<noteq> [])"

text \<open>
  \<open>d.get(key, default)\<close>: only a dict has the method; on any other value the attribute
  lookup raises \<open>AttributeError\<close>.
\<close>

fun py_get :: "json \<Rightarrow> pystr \<Rightarrow> json \<Rightarrow> error + json" where
  "py_get (JObj kvs) k d = Inr (case map_of kvs k of Some v \<Rightarrow> v | None \<Rightarrow> d)"
| "py_get _ k d = Inl AttributeError"

section \<open>String operations\<close>

abbreviation ch :: "char \<Rightarrow> nat" where
  "ch c \<equiv> of_char c"

text \<open>
  The characters \<open>str.strip()\<close> removes (\<open>str.isspace\<close>): U+0009..U+000D,
  U+001C..U+0020, U+0085, U+00A0, U+1680, U+2000..U+200A, U+2028, U+2029, U+202F, U+205F
  and U+3000.
\<close>

definition is_space :: "nat \<Rightarrow> bool" where
  "is_space c \<longleftrightarrow>
     (9 \<le> c \<and> c \<le> 13) \<or> (28 \<le> c \<and> c \<le> 32) \<or> c = 133 \<or> c = 160 \<or> c = 5760 \<or>
     (8192 \<le> c \<and> c \<le> 8202) \<or> c = 8232 \<or> c = 8233 \<or> c = 8239 \<or> c = 8287 \<or> c = 12288"

definition py_strip :: "pystr \<Rightarrow> pystr" where
  "py_strip s = rev (dropWhile is_space (rev (dropWhile is_space s)))"

text \<open>
  \<open>s.split(sep)\<close> for a non-empty separator: the pieces between the non-overlapping
  occurrences of \<open>sep\<close>, found from the left. \<open>cur\<close> is the piece being read.
\<close>

function py_split_from :: "pystr \<Rightarrow> pystr \<Rightarrow> pystr \<Rightarrow> pystr list" where
  "py_split_from sep cur [] = [cur]"
| "py_split_from sep cur (c # cs) =
     (if sep \<noteq> [] \<and> take (length sep) (c # cs) = sep
      then cur # py_split_from sep [] (drop (length sep) (c # cs))
      else py_split_from sep (cur @ [c]) cs)"
  by pat_completeness auto
termination
  by (relation "measure (\<lambda>(sep, cur, s). length s)") auto

definition py_split :: "pystr \<Rightarrow> pystr \<Rightarrow> pystr list" where
  "py_split sep s = py_split_from sep [] s"

text \<open>
  \<open>s.replace(old, new)\<close> for a non-empty \<open>old\<close>: every non-overlapping occurrence of
  \<open>old\<close>, found from the left, becomes \<open>new\<close>.
\<close>

function py_replace :: "pystr \<Rightarrow> pystr \<Rightarrow> pystr \<Rightarrow> pystr" where
  "py_replace old new [] = []"
| "py_replace old new (c # cs) =
     (if old \<noteq> [] \<and> take (length old) (c # cs) = old
      then new @ py_replace old new (drop (length old) (c # cs))
      else c # py_replace old new cs)"
  by pat_completeness auto
termination
  by (relation "measure (\<lambda>(old, new, s). length s)") auto

text \<open>\<open>sub in s\<close> on two strings: \<open>sub\<close> occurs in \<open>s\<close> as a contiguous run.\<close>

fun py_contains :: "pystr \<Rightarrow> pystr \<Rightarrow> bool" where
  "py_contains sub [] = (sub = [])"
| "py_contains sub (c # cs) = (take (length sub) (c # cs) = sub \<or> py_contains sub cs)"

text \<open>
  \<open>x in v\<close> for a string \<open>x\<close>: a substring test on a str, an element test on a list, a
  key test on a dict; any other value is not iterable and the test raises \<open>TypeError\<close>.
\<close>

fun py_in :: "pystr \<Rightarrow> json \<Rightarrow> error + bool" where
  "py_in x (JStr s) = Inr (py_contains x s)"
| "py_in x (JArr xs) = Inr (JStr x \<in> set xs)"
| "py_in x (JObj kvs) = Inr (x \<in> fst ` set kvs)"
| "py_in x _ = Inl TypeError"

subsection \<open>The two regular expressions\<close>

text \<open>
  \<open>re.search(r'\[.*?\]\((.*?)\)', s)\<close>. The search tries the start positions from the
  left; a lazy \<open>.*?\<close> tries the shortest run first and grows one character at a time,
  and \<open>.\<close> matches every character but the newline U+000A. \<open>md_group\<close> matches
  \<open>(.*?)\)\<close> and returns the group, \<open>md_rest\<close> matches \<open>.*?\]\((.*?)\)\<close>, and
  \<open>md_search\<close> is the search: the value of \<open>match.group(1)\<close>, or \<open>None\<close> for no match.
\<close>

fun md_group :: "pystr \<Rightarrow> pystr option" where
  "md_group [] = None"
| "md_group (c # cs) =
     (if c = ch CHR '')'' then Some []
      else if c = 10 then None
      else map_option ((#) c) (md_group cs))"

fun md_rest :: "pystr \<Rightarrow> pystr option" where
  "md_rest [] = None"
| "md_rest (c # cs) =
     (case (if c = ch CHR '']'' \<and> take 1 cs = [ch CHR ''(''] then md_group (drop 1 cs) else None) of
        Some g \<Rightarrow> Some g
      | None \<Rightarrow> if c = 10 then None else md_rest cs)"

fun md_search :: "pystr \<Rightarrow> pystr option" where
  "md_search [] = None"
| "md_search (c # cs) =
     (case (if c = ch CHR ''['' then md_rest cs else None) of
        Some g \<Rightarrow> Some g
      | None \<Rightarrow> md_search cs)"

text \<open>
  \<open>re.search(r'<a href="(.*?)">', s)\<close>, in the same way: \<open>html_group\<close> matches
  \<open>(.*?)">\<close> and \<open>html_search\<close> tries the literal \<open><a href="\<close> at every position.
\<close>

definition a_href :: pystr where
  "a_href = u ''<a href='' @ [34]"

fun html_group :: "pystr \<Rightarrow> pystr option" where
  "html_group [] = None"
| "html_group (c # cs) =
     (if take 2 (c # cs) = [34, ch CHR ''>''] then Some []
      else if c = 10 then None
      else map_option ((#) c) (html_group cs))"

fun html_search :: "pystr \<Rightarrow> pystr option" where
  "html_search [] = None"
| "html_search (c # cs) =
     (case (if take (length a_href) (c # cs) = a_href then html_group (drop (length a_href) (c # cs)) else None) of
        Some g \<Rightarrow> Some g
      | None \<Rightarrow> html_search cs)"

section \<open>The Chat Message\<close>

text \<open>
  The message is a Python dict built from literals, values taken from the payload as they
  are, and f-strings. An f-string is kept as its parts: a literal piece, or a replacement
  field \<open>{v}\<close> holding the value that \<open>str()\<close> will render.
\<close>

datatype piece = Lit pystr | Fmt json

datatype out =
    OStr pystr
  | OFStr "piece list"
  | OJson json
  | OList "out list"
  | ODict "(pystr \<times> out) list"

text \<open>
  The truth value of a built object. \<open>str(v)\<close> is empty only for the empty string, so
  an f-string is empty only when every part is.
\<close>

fun piece_nonempty :: "piece \<Rightarrow> bool" where
  "piece_nonempty (Lit s) = (s \<noteq> [])"
| "piece_nonempty (Fmt (JStr s)) = (s \<noteq> [])"
| "piece_nonempty (Fmt _) = True"

fun out_truthy :: "out \<Rightarrow> bool" where
  "out_truthy (OStr s) = (s \<noteq> [])"
| "out_truthy (OFStr ps) = (\<exists>p \<in> set ps. piece_nonempty p)"
| "out_truthy (OJson v) = truthy v"
| "out_truthy (OList xs) = (xs \<noteq> [])"
| "out_truthy (ODict kvs) = (kvs \<noteq> [])"

section \<open>format_ado_event_card\<close>

definition tag_to_find :: pystr where
  "tag_to_find = u ''@Francisco Aliss''"

definition no_comment_text :: pystr where
  "no_comment_text = u ''No comment text found.''"

definition hash :: json where
  "hash = JStr (u ''#'')"

text \<open>
  Lines 72 to 78: the comment text. \<open>detailed_text.split\<close> exists only on a str, so a
  detailed text that is true and not a str raises \<open>AttributeError\<close>.
\<close>

definition comment_parts :: "pystr \<Rightarrow> pystr list" where
  "comment_parts detailed_text =
     filter (\<lambda>part. part \<noteq> []) (map py_strip (py_split [13, 10] detailed_text))"

definition extract_comment_text :: "json \<Rightarrow> json \<Rightarrow> error + json" where
  "extract_comment_text detailed_message_data resource_fields =
     bind (py_get detailed_message_data (u ''text'') JNull) (\<lambda>detailed_text.
     bind (if truthy detailed_text
           then (case detailed_text of
                   JStr s \<Rightarrow>
                     (let parts = comment_parts s
                      in Inr (if parts \<noteq> [] then JStr (last parts) else JStr no_comment_text))
                 | _ \<Rightarrow> Inl AttributeError)
           else Inr (JStr no_comment_text)) (\<lambda>comment_text.
     if comment_text = JStr no_comment_text
     then py_get resource_fields (u ''System.History'') (JStr (u ''Could not retrieve comment text.''))
     else Inr comment_text))"

text \<open>
  Lines 80 to 91: the link to the work item. \<open>re.search\<close> on a value that is true and
  not a str raises \<open>TypeError\<close>.
\<close>

definition markdown_link :: "json \<Rightarrow> error + json" where
  "markdown_link message_data =
     bind (py_get message_data (u ''markdown'') JNull) (\<lambda>markdown_text.
     if truthy markdown_text
     then (case markdown_text of
             JStr s \<Rightarrow> Inr (case md_search s of Some g \<Rightarrow> JStr g | None \<Rightarrow> hash)
           | _ \<Rightarrow> Inl TypeError)
     else Inr hash)"

definition html_link :: "json \<Rightarrow> error + json" where
  "html_link message_data =
     bind (py_get message_data (u ''html'') JNull) (\<lambda>html_text.
     if truthy html_text
     then (case html_text of
             JStr s \<Rightarrow>
               Inr (case html_search s of
                      Some g \<Rightarrow> JStr (py_replace (u ''&amp;'') (u ''&'') g)
                    | None \<Rightarrow> hash)
           | _ \<Rightarrow> Inl TypeError)
     else Inr hash)"

definition resource_link :: "json \<Rightarrow> error + json" where
  "resource_link resource =
     bind (py_get resource (u ''_links'') (JObj [])) (\<lambda>links.
     bind (py_get links (u ''html'') (JObj [])) (\<lambda>html.
     bind (py_get resource (u ''url'') hash) (\<lambda>url.
     py_get html (u ''href'') url)))"

definition extract_work_item_link :: "json \<Rightarrow> json \<Rightarrow> error + json" where
  "extract_work_item_link message_data resource =
     bind (markdown_link message_data) (\<lambda>link1.
     bind (if link1 = hash then html_link message_data else Inr link1) (\<lambda>link2.
     if link2 = hash then resource_link resource else Inr link2))"

text \<open>The card of lines 111 to 113 and 148 to 150.\<close>

definition chat_card :: "out \<Rightarrow> out \<Rightarrow> out list \<Rightarrow> out" where
  "chat_card card_id card_header widgets =
     ODict [(u ''cardsV2'',
       OList [ODict [(u ''cardId'', card_id),
                     (u ''card'', ODict [(u ''header'', card_header),
                                         (u ''sections'', OList [ODict [(u ''widgets'', OList widgets)]])])]])]"

definition button :: "pystr \<Rightarrow> json \<Rightarrow> out" where
  "button label url =
     ODict [(u ''buttonList'', ODict [(u ''buttons'',
       OList [ODict [(u ''text'', OStr label),
                     (u ''onClick'', ODict [(u ''openLink'', ODict [(u ''url'', OJson url)])])]])])]"

definition text_paragraph :: "piece list \<Rightarrow> out" where
  "text_paragraph ps = ODict [(u ''textParagraph'', ODict [(u ''text'', OFStr ps)])]"

definition decorated_text :: "pystr \<Rightarrow> out \<Rightarrow> out" where
  "decorated_text top_label txt =
     ODict [(u ''decoratedText'', ODict [(u ''topLabel'', OStr top_label), (u ''text'', txt)])]"

text \<open>Lines 66 to 116: the branch of \<open>workitem.commented\<close>.\<close>

definition comment_card :: "json \<Rightarrow> json \<Rightarrow> json \<Rightarrow> json \<Rightarrow> json \<Rightarrow> json \<Rightarrow> json \<Rightarrow> json \<Rightarrow> out" where
  "comment_card wi_id wi_type wi_title commenter project_name comment_text work_item_link rev_no =
     chat_card
       (OFStr [Lit (u ''comment-wi-''), Fmt wi_id, Lit (u ''-rev-''), Fmt rev_no])
       (ODict [(u ''title'', OFStr [Lit (u ''New Comment on ''), Fmt wi_type, Lit (u '' #''), Fmt wi_id]),
               (u ''subtitle'', OFStr [Fmt wi_title, Lit (u '' | By: ''), Fmt commenter]),
               (u ''imageUrl'', OStr (u ''https://img.icons8.com/color/48/000000/comments.png'')),
               (u ''imageType'', OStr (u ''CIRCLE''))])
       ([text_paragraph [Lit (u ''<b>Project:</b> ''), Fmt project_name],
         text_paragraph [Lit (u ''<b>Comment:</b>'' @ [10]), Fmt comment_text]]
        @ (if work_item_link \<noteq> hash then [button (u ''View Work Item'') work_item_link] else []))"

definition format_comment :: "json \<Rightarrow> json \<Rightarrow> json \<Rightarrow> json \<Rightarrow> json \<Rightarrow> error + out option" where
  "format_comment message_data detailed_message_data resource resource_fields project_name =
     bind (py_get resource (u ''id'') (JStr (u ''N/A''))) (\<lambda>wi_id.
     bind (py_get resource_fields (u ''System.WorkItemType'') (JStr (u ''Work Item''))) (\<lambda>wi_type.
     bind (py_get resource_fields (u ''System.Title'') (JStr (u ''N/A''))) (\<lambda>wi_title.
     bind (py_get resource_fields (u ''System.ChangedBy'') (JObj [])) (\<lambda>changed_by.
     bind (py_get changed_by (u ''displayName'') (JStr (u ''Unknown User''))) (\<lambda>commenter.
     bind (extract_comment_text detailed_message_data resource_fields) (\<lambda>comment_text.
     bind (extract_work_item_link message_data resource) (\<lambda>work_item_link.
     bind (py_in tag_to_find comment_text) (\<lambda>found.
     if found
     then bind (py_get resource (u ''rev'') (JStr (u ''N/A''))) (\<lambda>rev_no.
          Inr (Some (comment_card wi_id wi_type wi_title commenter project_name
                       comment_text work_item_link rev_no)))
     else Inr None))))))))"

text \<open>
  Lines 119 to 150: the branch of \<open>git.pullrequest.created\<close>. \<open>replace\<close> exists only
  on a str. The arrow between the branches is U+2192.
\<close>

definition strip_ref :: "json \<Rightarrow> error + pystr" where
  "strip_ref v = (case v of JStr s \<Rightarrow> Inr (py_replace (u ''refs/heads/'') [] s) | _ \<Rightarrow> Inl AttributeError)"

definition pr_card :: "json \<Rightarrow> json \<Rightarrow> json \<Rightarrow> json \<Rightarrow> json \<Rightarrow> pystr \<Rightarrow> pystr \<Rightarrow> json \<Rightarrow> out" where
  "pr_card repo_name project_name pr_id pr_title creator source_branch target_branch pr_url =
     chat_card
       (OFStr [Lit (u ''pr-''), Fmt pr_id])
       (ODict [(u ''title'', OFStr [Lit (u ''Pull Request #''), Fmt pr_id, Lit (u '' Created'')]),
               (u ''subtitle'', OFStr [Lit (u ''Repo: ''), Fmt repo_name, Lit (u '' | Project: ''), Fmt project_name]),
               (u ''imageUrl'', OStr (u ''https://img.icons8.com/fluent/48/000000/pull-request.png'')),
               (u ''imageType'', OStr (u ''CIRCLE''))])
       ([decorated_text (u ''Title'') (OJson pr_title),
         decorated_text (u ''Created By'') (OJson creator),
         decorated_text (u ''Branches'')
           (OFStr [Fmt (JStr source_branch), Lit [32, 8594, 32], Fmt (JStr target_branch)])]
        @ (if pr_url \<noteq> hash then [button (u ''View Pull Request'') pr_url] else []))"

definition format_pull_request :: "json \<Rightarrow> json \<Rightarrow> error + out option" where
  "format_pull_request resource project_name0 =
     bind (py_get resource (u ''repository'') (JObj [])) (\<lambda>repo.
     bind (py_get repo (u ''name'') (JStr (u ''N/A''))) (\<lambda>repo_name.
     bind (py_get repo (u ''project'') (JObj [])) (\<lambda>repo_project.
     bind (py_get repo_project (u ''name'') project_name0) (\<lambda>project_name.
     bind (py_get resource (u ''pullRequestId'') (JStr (u ''N/A''))) (\<lambda>pr_id.
     bind (py_get resource (u ''title'') (JStr (u ''N/A''))) (\<lambda>pr_title.
     bind (py_get resource (u ''createdBy'') (JObj [])) (\<lambda>created_by.
     bind (py_get created_by (u ''displayName'') (JStr (u ''N/A''))) (\<lambda>creator.
     bind (py_get resource (u ''sourceRefName'') (JStr (u ''N/A''))) (\<lambda>source_ref.
     bind (strip_ref source_ref) (\<lambda>source_branch.
     bind (py_get resource (u ''targetRefName'') (JStr (u ''N/A''))) (\<lambda>target_ref.
     bind (strip_ref target_ref) (\<lambda>target_branch.
     bind (py_get resource (u ''_links'') (JObj [])) (\<lambda>links.
     bind (py_get links (u ''web'') (JObj [])) (\<lambda>web.
     bind (py_get web (u ''href'') hash) (\<lambda>pr_url0.
     bind (if pr_url0 = hash then py_get resource (u ''url'') hash else Inr pr_url0) (\<lambda>pr_url.
     Inr (Some (pr_card repo_name project_name pr_id pr_title creator
                  source_branch target_branch pr_url))))))))))))))))))"

text \<open>Lines 50 to 57: the project name shared by the branches.\<close>

definition top_project_name :: "json \<Rightarrow> json \<Rightarrow> error + json" where
  "top_project_name payload resource_fields =
     bind (py_get resource_fields (u ''System.TeamProject'') JNull) (\<lambda>project_name.
     if \<not> truthy project_name
     then bind (py_get payload (u ''resourceContainers'') (JObj [])) (\<lambda>containers.
          bind (py_get containers (u ''project'') (JObj [])) (\<lambda>project.
          py_get project (u ''name'') (JStr (u ''Unknown Project''))))
     else Inr project_name)"

text \<open>
  The function: \<open>Inl\<close> is the exception it raises, \<open>Inr None\<close> is the return value
  \<open>None\<close>, \<open>Inr (Some m)\<close> is the Chat Message \<open>m\<close>.
\<close>

definition format_ado_event_card :: "json \<Rightarrow> error + out option" where
  "format_ado_event_card payload =
     bind (py_get payload (u ''eventType'') (JStr (u ''unknown''))) (\<lambda>event_type.
     bind (py_get payload (u ''message'') (JObj [])) (\<lambda>message_data.
     bind (py_get payload (u ''detailedMessage'') (JObj [])) (\<lambda>detailed_message_data.
     bind (py_get payload (u ''resource'') (JObj [])) (\<lambda>resource.
     bind (py_get resource (u ''fields'') (JObj [])) (\<lambda>resource_fields.
     bind (top_project_name payload resource_fields) (\<lambda>project_name.
     bind (py_get payload (u ''id'') (JStr (u ''default''))) (\<lambda>default_card_id.
     if event_type = JStr (u ''workitem.commented'')
     then format_comment message_data detailed_message_data resource resource_fields project_name
     else if event_type = JStr (u ''git.pullrequest.created'')
     then format_pull_request resource project_name
     else Inr None)))))))"

section \<open>The handler\<close>

text \<open>
  The three environment variables, read once by \<open>os.environ.get\<close>: a str, or \<open>None\<close>
  when the variable is not set.
\<close>

record env =
  GOOGLE_CHAT_WEBHOOK_URL :: "pystr option"
  ADO_WEBHOOK_USER :: "pystr option"
  ADO_WEBHOOK_PASS :: "pystr option"

definition env_truthy :: "pystr option \<Rightarrow> bool" where
  "env_truthy v = (case v of None \<Rightarrow> False | Some s \<Rightarrow> s \<noteq> [])"

text \<open>
  The library calls the program makes, as parameters: \<open>b64decode_utf8 s\<close> is
  \<open>base64.b64decode(s).decode('utf-8')\<close>, \<open>json_loads\<close> is \<open>json.loads\<close> (each returns
  the exception it raises as \<open>Inl\<close>), and \<open>requests_post url message\<close> is the outcome
  of the one \<open>requests.post\<close> of line 28: a response with its status code, a
  \<open>RequestException\<close>, or any other exception.
\<close>

datatype post_result = Response nat | RequestException | UnexpectedException

record lib =
  b64decode_utf8 :: "pystr \<Rightarrow> error + pystr"
  json_loads :: "pystr \<Rightarrow> error + json"
  requests_post :: "pystr \<Rightarrow> out \<Rightarrow> post_result"

text \<open>
  Lines 21 to 42. \<open>response.raise_for_status()\<close> raises an \<open>HTTPError\<close>, which is a
  \<open>RequestException\<close>, for a status code from 400 to 599.
\<close>

definition send_to_google_chat :: "env \<Rightarrow> lib \<Rightarrow> out \<Rightarrow> bool" where
  "send_to_google_chat E L message_payload =
     (case GOOGLE_CHAT_WEBHOOK_URL E of
        None \<Rightarrow> False
      | Some url \<Rightarrow>
          if url = [] then False
          else (case requests_post L url message_payload of
                  Response code \<Rightarrow> \<not> (400 \<le> code \<and> code < 600)
                | RequestException \<Rightarrow> False
                | UnexpectedException \<Rightarrow> False))"

text \<open>
  The event of an HTTP request, as the hosting platform passes it: the method, the
  headers (names and values are strings) and the body, each of them possibly missing.
\<close>

record event =
  httpMethod :: "pystr option"
  headers :: "(pystr \<times> pystr) list option"
  body :: "pystr option"

text \<open>
  The response: \<open>body\<close> is \<open>json.dumps\<close> of the dict with the entries \<open>status\<close> and
  \<open>message\<close>, kept here as the two strings.
\<close>

record response =
  statusCode :: nat
  status :: pystr
  message :: pystr

definition respond :: "nat \<Rightarrow> string \<Rightarrow> string \<Rightarrow> response" where
  "respond code st msg = \<lparr>statusCode = code, status = u st, message = u msg\<rparr>"

text \<open>
  \<open>auth_header.lower().startswith('basic ')\<close>. Only the letters A to Z are lowered:
  \<open>str.lower\<close> maps no other character onto a letter of \<open>basic\<close> or onto the space.
\<close>

definition ascii_lower :: "nat \<Rightarrow> nat" where
  "ascii_lower c = (if 65 \<le> c \<and> c \<le> 90 then c + 32 else c)"

definition starts_with_basic :: "pystr \<Rightarrow> bool" where
  "starts_with_basic auth_header \<longleftrightarrow> map ascii_lower (take 6 auth_header) = u ''basic ''"

text \<open>\<open>s.split(c, 1)\<close> for a single character \<open>c\<close>: one piece, or the two around the first \<open>c\<close>.\<close>

definition split_once :: "nat \<Rightarrow> pystr \<Rightarrow> pystr list" where
  "split_once c s =
     (if c \<in> set s then [takeWhile (\<lambda>x. x \<noteq> c) s, tl (dropWhile (\<lambda>x. x \<noteq> c) s)] else [s])"

text \<open>
  Lines 180 to 188, the body of the \<open>try\<close>: index 1 of a list of one piece raises
  \<open>IndexError\<close>, and unpacking anything but two pieces raises \<open>ValueError\<close>.
\<close>

definition check_credentials :: "lib \<Rightarrow> pystr \<Rightarrow> pystr \<Rightarrow> pystr \<Rightarrow> error + bool" where
  "check_credentials L user pass auth_header =
     (case split_once 32 auth_header of
        [scheme, encoded_credentials] \<Rightarrow>
          bind (b64decode_utf8 L encoded_credentials) (\<lambda>decoded_credentials.
          (case split_once 58 decoded_credentials of
             [username, password] \<Rightarrow> Inr (username = user \<and> password = pass)
           | _ \<Rightarrow> Inl ValueError))
      | _ \<Rightarrow> Inl IndexError)"

definition auth_header_of :: "event \<Rightarrow> pystr option" where
  "auth_header_of ev = map_of (case headers ev of None \<Rightarrow> [] | Some hs \<Rightarrow> hs) (u ''authorization'')"

text \<open>Lines 174 to 195: the value of \<open>auth_passed\<close>.\<close>

definition auth_passed :: "env \<Rightarrow> lib \<Rightarrow> event \<Rightarrow> bool" where
  "auth_passed E L ev =
     (case (ADO_WEBHOOK_USER E, ADO_WEBHOOK_PASS E) of
        (Some user, Some pass) \<Rightarrow>
          if user \<noteq> [] \<and> pass \<noteq> []
          then (case auth_header_of ev of
                  None \<Rightarrow> False
                | Some auth_header \<Rightarrow>
                    if auth_header \<noteq> [] \<and> starts_with_basic auth_header
                    then (case check_credentials L user pass auth_header of
                            Inr ok \<Rightarrow> ok
                          | Inl e \<Rightarrow> False)
                    else False)
          else False
      | _ \<Rightarrow> False)"

text \<open>Lines 204 to 225, the body of the second \<open>try\<close>.\<close>

definition no_notification :: response where
  "no_notification = respond 200 ''success'' ''Webhook received, no notification required''"

definition process_payload :: "env \<Rightarrow> lib \<Rightarrow> event \<Rightarrow> error + response" where
  "process_payload E L ev =
     (let payload_string = (case body ev of None \<Rightarrow> u ''{}'' | Some b \<Rightarrow> b) in
      bind (json_loads L payload_string) (\<lambda>payload.
      bind (py_get payload (u ''eventType'') (JStr (u ''unknown''))) (\<lambda>logged_event_type.
      if \<not> env_truthy (GOOGLE_CHAT_WEBHOOK_URL E)
      then Inr (respond 500 ''error'' ''Webhook processor configuration error'')
      else bind (format_ado_event_card payload) (\<lambda>chat_payload.
           (case chat_payload of
              None \<Rightarrow> Inr no_notification
            | Some m \<Rightarrow>
                if out_truthy m
                then (if send_to_google_chat E L m
                      then Inr (respond 200 ''success'' ''Webhook received and notification sent'')
                      else Inr (respond 500 ''error''
                                  ''Webhook received but failed to send notification to Google Chat''))
                else Inr no_notification)))))"

text \<open>Lines 161 to 232.\<close>

definition handler :: "env \<Rightarrow> lib \<Rightarrow> event \<Rightarrow> response" where
  "handler E L ev =
     (if httpMethod ev \<noteq> Some (u ''POST'')
      then respond 405 ''error'' ''Method Not Allowed''
      else if \<not> auth_passed E L ev
      then respond 401 ''error'' ''Authentication Required''
      else (case process_payload E L ev of
              Inr r \<Rightarrow> r
            | Inl JSONDecodeError \<Rightarrow> respond 400 ''error'' ''Invalid JSON payload''
            | Inl e \<Rightarrow> respond 500 ''error'' ''Internal Server Error processing webhook''))"

section \<open>Notions the properties are stated with\<close>

subsection \<open>Reading a payload\<close>

text \<open>
  \<open>field v k\<close> is the entry of the dict \<open>v\<close> under \<open>k\<close>, if \<open>v\<close> is a dict and has one;
  \<open>get_or v k d\<close> is what \<open>v.get(k, d)\<close> returns on a dict, and \<open>obj_field v k\<close> what
  \<open>v.get(k, {})\<close> returns.
\<close>

definition field :: "json \<Rightarrow> pystr \<Rightarrow> json option" where
  "field v k = (case v of JObj kvs \<Rightarrow> map_of kvs k | _ \<Rightarrow> None)"

definition get_or :: "json \<Rightarrow> pystr \<Rightarrow> json \<Rightarrow> json" where
  "get_or v k d = (case field v k of Some x \<Rightarrow> x | None \<Rightarrow> d)"

abbreviation obj_field :: "json \<Rightarrow> pystr \<Rightarrow> json" where
  "obj_field v k \<equiv> get_or v k (JObj [])"

definition is_obj :: "json \<Rightarrow> bool" where
  "is_obj v = (case v of JObj kvs \<Rightarrow> True | _ \<Rightarrow> False)"

definition str_or_missing :: "json option \<Rightarrow> bool" where
  "str_or_missing x = (case x of None \<Rightarrow> True | Some (JStr s) \<Rightarrow> True | Some _ \<Rightarrow> False)"

text \<open>
  A payload whose fields have the types the formatter expects: the payload is an object;
  every container the formatter descends into is an object when it is present; the texts
  it splits, searches or replaces in are strings when they are present.
\<close>

definition well_typed_top :: "json \<Rightarrow> bool" where
  "well_typed_top payload \<longleftrightarrow>
     is_obj payload \<and>
     is_obj (obj_field payload (u ''message'')) \<and>
     is_obj (obj_field payload (u ''detailedMessage'')) \<and>
     is_obj (obj_field payload (u ''resource'')) \<and>
     is_obj (obj_field (obj_field payload (u ''resource'')) (u ''fields'')) \<and>
     is_obj (obj_field payload (u ''resourceContainers'')) \<and>
     is_obj (obj_field (obj_field payload (u ''resourceContainers'')) (u ''project''))"

definition well_typed_comment :: "json \<Rightarrow> json \<Rightarrow> json \<Rightarrow> json \<Rightarrow> bool" where
  "well_typed_comment message_data detailed_message_data resource resource_fields \<longleftrightarrow>
     is_obj (obj_field resource_fields (u ''System.ChangedBy'')) \<and>
     str_or_missing (field detailed_message_data (u ''text'')) \<and>
     str_or_missing (field resource_fields (u ''System.History'')) \<and>
     str_or_missing (field message_data (u ''markdown'')) \<and>
     str_or_missing (field message_data (u ''html'')) \<and>
     is_obj (obj_field resource (u ''_links'')) \<and>
     is_obj (obj_field (obj_field resource (u ''_links'')) (u ''html''))"

definition well_typed_pull_request :: "json \<Rightarrow> bool" where
  "well_typed_pull_request resource \<longleftrightarrow>
     is_obj (obj_field resource (u ''repository'')) \<and>
     is_obj (obj_field (obj_field resource (u ''repository'')) (u ''project'')) \<and>
     is_obj (obj_field resource (u ''createdBy'')) \<and>
     str_or_missing (field resource (u ''sourceRefName'')) \<and>
     str_or_missing (field resource (u ''targetRefName'')) \<and>
     is_obj (obj_field resource (u ''_links'')) \<and>
     is_obj (obj_field (obj_field resource (u ''_links'')) (u ''web''))"

definition well_typed :: "json \<Rightarrow> bool" where
  "well_typed payload \<longleftrightarrow>
     well_typed_top payload \<and>
     well_typed_comment (obj_field payload (u ''message'')) (obj_field payload (u ''detailedMessage''))
       (obj_field payload (u ''resource'')) (obj_field (obj_field payload (u ''resource'')) (u ''fields'')) \<and>
     well_typed_pull_request (obj_field payload (u ''resource''))"

text \<open>The comment text and the link of lines 72 to 91, as functions of the payload.\<close>

definition event_comment_text :: "json \<Rightarrow> error + json" where
  "event_comment_text payload =
     bind (py_get payload (u ''detailedMessage'') (JObj [])) (\<lambda>detailed_message_data.
     bind (py_get payload (u ''resource'') (JObj [])) (\<lambda>resource.
     bind (py_get resource (u ''fields'') (JObj [])) (\<lambda>resource_fields.
     extract_comment_text detailed_message_data resource_fields)))"

definition event_work_item_link :: "json \<Rightarrow> error + json" where
  "event_work_item_link payload =
     bind (py_get payload (u ''message'') (JObj [])) (\<lambda>message_data.
     bind (py_get payload (u ''resource'') (JObj [])) (\<lambda>resource.
     extract_work_item_link message_data resource))"

text \<open>
  The three sources of the link, each with what it yields when it succeeds: the markdown
  search, the HTML search with \<open>&amp;\<close> unescaped, and the link fields of the resource
  (\<open>_links.html.href\<close>, and \<open>url\<close> when that is missing).
\<close>

definition md_source :: "json \<Rightarrow> json option" where
  "md_source message_data =
     (case get_or message_data (u ''markdown'') JNull of
        JStr s \<Rightarrow> map_option JStr (md_search s)
      | _ \<Rightarrow> None)"

definition html_source :: "json \<Rightarrow> json option" where
  "html_source message_data =
     (case get_or message_data (u ''html'') JNull of
        JStr s \<Rightarrow> map_option (\<lambda>g. JStr (py_replace (u ''&amp;'') (u ''&'') g)) (html_search s)
      | _ \<Rightarrow> None)"

definition direct_source :: "json \<Rightarrow> json option" where
  "direct_source resource =
     (case field (obj_field (obj_field resource (u ''_links'')) (u ''html'')) (u ''href'') of
        Some v \<Rightarrow> Some v
      | None \<Rightarrow> field resource (u ''url''))"

text \<open>
  Following the spec's words: the first source that succeeds, and \<open>#\<close> when none does.
\<close>

fun first_success :: "json option list \<Rightarrow> json" where
  "first_success [] = hash"
| "first_success (None # xs) = first_success xs"
| "first_success (Some v # xs) = v"

text \<open>The same, with a source that yields \<open>#\<close> counted as one that fails.\<close>

fun first_real :: "json option list \<Rightarrow> json" where
  "first_real [] = hash"
| "first_real (None # xs) = first_real xs"
| "first_real (Some v # xs) = (if v = hash then first_real xs else v)"

subsection \<open>Reading a Chat Message\<close>

fun dict_get :: "out \<Rightarrow> pystr \<Rightarrow> out option" where
  "dict_get (ODict kvs) k = map_of kvs k"
| "dict_get _ k = None"

definition is_widget :: "out \<Rightarrow> bool" where
  "is_widget w \<longleftrightarrow>
     dict_get w (u ''textParagraph'') \<noteq> None \<or> dict_get w (u ''decoratedText'') \<noteq> None \<or>
     dict_get w (u ''buttonList'') \<noteq> None"

definition well_formed_header :: "out \<Rightarrow> bool" where
  "well_formed_header h \<longleftrightarrow>
     dict_get h (u ''title'') \<noteq> None \<and> dict_get h (u ''subtitle'') \<noteq> None \<and>
     dict_get h (u ''imageUrl'') \<noteq> None"

definition well_formed_sections :: "out \<Rightarrow> bool" where
  "well_formed_sections ss \<longleftrightarrow>
     (case ss of
        OList [sec] \<Rightarrow>
          (case dict_get sec (u ''widgets'') of
             Some (OList ws) \<Rightarrow> ws \<noteq> [] \<and> list_all is_widget ws
           | _ \<Rightarrow> False)
      | _ \<Rightarrow> False)"

text \<open>
  A well-formed Chat Message: one card with an identifier, a header with title, subtitle
  and icon, and one section whose list of widgets is not empty.
\<close>

definition well_formed_message :: "out \<Rightarrow> bool" where
  "well_formed_message m \<longleftrightarrow>
     (case dict_get m (u ''cardsV2'') of
        Some (OList [c]) \<Rightarrow>
          dict_get c (u ''cardId'') \<noteq> None \<and>
          (case dict_get c (u ''card'') of
             Some inner \<Rightarrow>
               (case dict_get inner (u ''header'') of Some h \<Rightarrow> well_formed_header h | None \<Rightarrow> False) \<and>
               (case dict_get inner (u ''sections'') of Some ss \<Rightarrow> well_formed_sections ss | None \<Rightarrow> False)
           | None \<Rightarrow> False)
      | _ \<Rightarrow> False)"

text \<open>The widgets of a Chat Message, and the text of its third widget, the branches.\<close>

definition card_widgets :: "out \<Rightarrow> out list" where
  "card_widgets m =
     (case dict_get m (u ''cardsV2'') of
        Some (OList [c]) \<Rightarrow>
          (case dict_get c (u ''card'') of
             Some inner \<Rightarrow>
               (case dict_get inner (u ''sections'') of
                  Some (OList [sec]) \<Rightarrow>
                    (case dict_get sec (u ''widgets'') of Some (OList ws) \<Rightarrow> ws | _ \<Rightarrow> [])
                | _ \<Rightarrow> [])
           | None \<Rightarrow> [])
      | _ \<Rightarrow> [])"

definition branches_text :: "out \<Rightarrow> out option" where
  "branches_text m =
     (case card_widgets m of
        w1 # w2 # w3 # ws \<Rightarrow>
          (case dict_get w3 (u ''decoratedText'') of Some d \<Rightarrow> dict_get d (u ''text'') | None \<Rightarrow> None)
      | _ \<Rightarrow> None)"

text \<open>
  Following the spec's words, to compare with \<open>py_replace\<close>: the prefix \<open>p\<close> stripped
  from \<open>s\<close>.
\<close>

definition strip_prefix :: "pystr \<Rightarrow> pystr \<Rightarrow> pystr" where
  "strip_prefix p s = (if take (length p) s = p then drop (length p) s else s)"

text \<open>\<open>sep.join(xs)\<close>, to say what \<open>py_split\<close> returns.\<close>

fun py_join :: "pystr \<Rightarrow> pystr list \<Rightarrow> pystr" where
  "py_join sep [] = []"
| "py_join sep [x] = x"
| "py_join sep (x # y # ys) = x @ sep @ py_join sep (y # ys)"

text \<open>No occurrence of \<open>sep\<close> in \<open>cur @ s\<close> starts inside \<open>cur\<close>.\<close>

definition clear_of :: "pystr \<Rightarrow> pystr \<Rightarrow> pystr \<Rightarrow> bool" where
  "clear_of sep cur s \<longleftrightarrow> (\<forall>i < length cur. take (length sep) (drop i (cur @ s)) \<noteq> sep)"

subsection \<open>Exceptions\<close>

text \<open>The only exceptions a computation raises are \<open>AttributeError\<close> and \<open>TypeError\<close>.\<close>

definition raised :: "error + 'a \<Rightarrow> bool" where
  "raised r \<longleftrightarrow> (\<forall>e. r = Inl e \<longrightarrow> e = AttributeError \<or> e = TypeError)"

subsection \<open>Sample payloads\<close>

definition pr_sample :: json where
  "pr_sample =
     JObj [(u ''eventType'', JStr (u ''git.pullrequest.created'')),
           (u ''resource'', JObj [(u ''pullRequestId'', JInt 7),
                                  (u ''sourceRefName'', JStr (u ''refs/heads/feature'')),
                                  (u ''targetRefName'', JStr (u ''refs/heads/main''))])]"

definition comment_sample :: "pystr \<Rightarrow> json" where
  "comment_sample txt =
     JObj [(u ''eventType'', JStr (u ''workitem.commented'')),
           (u ''detailedMessage'', JObj [(u ''text'', JStr txt)])]"

definition null_message_sample :: json where
  "null_message_sample =
     JObj [(u ''eventType'', JStr (u ''workitem.commented'')),
           (u ''message'', JNull),
           (u ''detailedMessage'', JObj [(u ''text'', JStr (u ''Please review @Francisco Aliss''))])]"

definition nested_ref_sample :: json where
  "nested_ref_sample =
     JObj [(u ''eventType'', JStr (u ''git.pullrequest.created'')),
           (u ''resource'', JObj [(u ''sourceRefName'', JStr (u ''refs/heads/backup/refs/heads/main'')),
                                  (u ''targetRefName'', JStr (u ''refs/heads/main''))])]"

definition null_ref_sample :: json where
  "null_ref_sample =
     JObj [(u ''eventType'', JStr (u ''git.pullrequest.created'')),
           (u ''resource'', JObj [(u ''sourceRefName'', JNull)])]"

definition sentinel_sample :: json where
  "sentinel_sample =
     JObj [(u ''eventType'', JStr (u ''workitem.commented'')),
           (u ''detailedMessage'', JObj [(u ''text'', JStr (u ''No comment text found.''))]),
           (u ''resource'', JObj [(u ''fields'', JObj [(u ''System.History'', JStr (u ''Earlier remark''))])])]"

definition crlf_text :: pystr where
  "crlf_text = u ''See below'' @ [13, 10] @ u ''  Please review @Francisco Aliss '' @ [13, 10]"

definition crlf_sample :: json where
  "crlf_sample = comment_sample crlf_text"

definition int_text_sample :: json where
  "int_text_sample =
     JObj [(u ''eventType'', JStr (u ''workitem.commented'')),
           (u ''detailedMessage'', JObj [(u ''text'', JInt 5)])]"

definition anchor :: "pystr \<Rightarrow> pystr" where
  "anchor url = a_href @ url @ [34] @ u ''>here</a>''"

definition hash_link_sample :: json where
  "hash_link_sample =
     JObj [(u ''eventType'', JStr (u ''workitem.commented'')),
           (u ''message'', JObj [(u ''markdown'', JStr (u ''[here](#)'')),
                                 (u ''html'', JStr (anchor (u ''http://y'')))])]"

definition attr_anchor :: pystr where
  "attr_anchor =
     u ''<a class='' @ [34] @ u ''c'' @ [34] @ u '' href='' @ [34] @ u ''http://y'' @ [34] @ u ''>here</a>''"

definition attr_anchor_sample :: json where
  "attr_anchor_sample =
     JObj [(u ''eventType'', JStr (u ''workitem.commented'')),
           (u ''message'', JObj [(u ''html'', JStr attr_anchor)])]"

definition both_links_sample :: json where
  "both_links_sample =
     JObj [(u ''eventType'', JStr (u ''workitem.commented'')),
           (u ''message'', JObj [(u ''markdown'', JStr (u ''Comment on [Bug 5](http://x/5?a=1&b=2) added'')),
                                 (u ''html'', JStr (anchor (u ''http://y/5?a=1&amp;b=2'')))]),
           (u ''resource'', JObj [(u ''url'', JStr (u ''http://z''))])]"

definition html_link_sample :: json where
  "html_link_sample =
     JObj [(u ''eventType'', JStr (u ''workitem.commented'')),
           (u ''message'', JObj [(u ''html'', JStr (anchor (u ''http://y/5?a=1&amp;b=2'')))]),
           (u ''resource'', JObj [(u ''url'', JStr (u ''http://z''))])]"

subsection \<open>A sample deployment\<close>

text \<open>
  The credentials \<open>user\<close> and \<open>pa:ss\<close>; a decoder that knows three encoded strings
  (\<open>user:pa:ss\<close>, \<open>user:wrong\<close> and \<open>user\<close>) and fails on every other; a parser that
  knows three bodies; and a chat endpoint that answers with a given status code.
\<close>

definition sample_env :: env where
  "sample_env =
     \<lparr>GOOGLE_CHAT_WEBHOOK_URL = Some (u ''https://chat.example/hook''),
      ADO_WEBHOOK_USER = Some (u ''user''),
      ADO_WEBHOOK_PASS = Some (u ''pa:ss'')\<rparr>"

definition sample_decode :: "pystr \<Rightarrow> error + pystr" where
  "sample_decode s =
     (if s = u ''dXNlcjpwYTpzcw=='' then Inr (u ''user:pa:ss'')
      else if s = u ''dXNlcjp3cm9uZw=='' then Inr (u ''user:wrong'')
      else if s = u ''dXNlcg=='' then Inr (u ''user'')
      else Inl ValueError)"

definition sample_loads :: "pystr \<Rightarrow> error + json" where
  "sample_loads s =
     (if s = u ''{}'' then Inr (JObj [])
      else if s = u ''[]'' then Inr (JArr [])
      else if s = u ''build'' then Inr (JObj [(u ''eventType'', JStr (u ''build.complete''))])
      else if s = u ''pr'' then Inr pr_sample
      else Inl JSONDecodeError)"

definition sample_lib :: "nat \<Rightarrow> lib" where
  "sample_lib code =
     \<lparr>b64decode_utf8 = sample_decode,
      json_loads = sample_loads,
      requests_post = (\<lambda>url message_payload. Response code)\<rparr>"

definition sample_event :: "string \<Rightarrow> pystr option \<Rightarrow> event" where
  "sample_event credentials b =
     \<lparr>httpMethod = Some (u ''POST''),
      headers = Some [(u ''authorization'', u ''Basic '' @ u credentials)],
      body = b\<rparr>"


definition resource_link_sample :: json where
  "resource_link_sample =
     JObj [(u ''eventType'', JStr (u ''workitem.commented'')),
           (u ''resource'', JObj [(u ''url'', JStr (u ''http://z''))])]"

definition null_links_sample :: json where
  "null_links_sample =
     JObj [(u ''eventType'', JStr (u ''workitem.commented'')),
           (u ''message'', JObj []),
           (u ''resource'', JObj [(u ''_links'', JNull), (u ''url'', JStr (u ''http://z''))])]"

section \<open>Basic facts\<close>

lemma u_eq_iff [simp]: "u s = u t \<longleftrightarrow> s = t"
  by (simp add: u_def inj_map_eq_map[OF inj_of_char])

lemma u_Nil_iff [simp]: "u s = [] \<longleftrightarrow> s = []"
  by (simp add: u_def)

lemma bind_simps [simp]:
  "bind (Inl e) f = Inl e"
  "bind (Inr x) f = f x"
  by (simp_all add: bind_def)

lemma bind_Inr_iff: "bind m f = Inr y \<longleftrightarrow> (\<exists>x. m = Inr x \<and> f x = Inr y)"
  by (cases m) simp_all

section \<open>Payloads on which the formatter returns\<close>

lemma py_get_obj: "is_obj v \<Longrightarrow> py_get v k d = Inr (get_or v k d)"
  by (cases v) (simp_all add: is_obj_def field_def get_or_def)

lemma py_get_not_obj: "\<not> is_obj v \<Longrightarrow> py_get v k d = Inl AttributeError"
  by (cases v) (simp_all add: is_obj_def)

lemma py_get_raises: "py_get v k d = Inl e \<Longrightarrow> e = AttributeError"
  by (cases v) simp_all

lemma top_project_name_returns:
  "well_typed_top payload \<Longrightarrow>
   \<exists>pn. top_project_name payload (obj_field (obj_field payload (u ''resource'')) (u ''fields'')) = Inr pn"
  by (simp add: top_project_name_def well_typed_top_def py_get_obj)

lemma str_or_missing_cases:
  "str_or_missing x \<Longrightarrow> x = None \<or> (\<exists>s. x = Some (JStr s))"
  by (auto simp: str_or_missing_def split: option.splits json.splits)

lemma get_or_str:
  "str_or_missing (field v k) \<Longrightarrow> \<exists>s. get_or v k (JStr d) = JStr s"
  by (auto simp: get_or_def dest: str_or_missing_cases)

lemma get_or_null_str:
  "str_or_missing (field v k) \<Longrightarrow> get_or v k JNull = JNull \<or> (\<exists>s. get_or v k JNull = JStr s)"
  by (auto simp: get_or_def dest: str_or_missing_cases)

lemma extract_comment_text_returns:
  assumes "is_obj dmd" "is_obj rf" "str_or_missing (field dmd (u ''text''))"
    "str_or_missing (field rf (u ''System.History''))"
  shows "\<exists>s. extract_comment_text dmd rf = Inr (JStr s)"
  using assms(1,2) get_or_null_str[OF assms(3)] get_or_str[OF assms(4), of "u ''Could not retrieve comment text.''"]
  by (auto simp: extract_comment_text_def py_get_obj Let_def)

lemma markdown_link_returns:
  "is_obj md \<Longrightarrow> str_or_missing (field md (u ''markdown'')) \<Longrightarrow> \<exists>l. markdown_link md = Inr l"
  using get_or_null_str[of md "u ''markdown''"]
  by (auto simp: markdown_link_def py_get_obj)

lemma html_link_returns:
  "is_obj md \<Longrightarrow> str_or_missing (field md (u ''html'')) \<Longrightarrow> \<exists>l. html_link md = Inr l"
  using get_or_null_str[of md "u ''html''"]
  by (auto simp: html_link_def py_get_obj)

lemma resource_link_returns:
  "is_obj r \<Longrightarrow> is_obj (obj_field r (u ''_links'')) \<Longrightarrow>
   is_obj (obj_field (obj_field r (u ''_links'')) (u ''html'')) \<Longrightarrow>
   resource_link r = Inr (get_or (obj_field (obj_field r (u ''_links'')) (u ''html'')) (u ''href'')
                           (get_or r (u ''url'') hash))"
  by (simp add: resource_link_def py_get_obj)

lemma extract_work_item_link_returns:
  assumes "is_obj md" "is_obj r" "str_or_missing (field md (u ''markdown''))"
    "str_or_missing (field md (u ''html''))" "is_obj (obj_field r (u ''_links''))"
    "is_obj (obj_field (obj_field r (u ''_links'')) (u ''html''))"
  shows "\<exists>l. extract_work_item_link md r = Inr l"
  using markdown_link_returns[OF assms(1,3)] html_link_returns[OF assms(1,4)]
    resource_link_returns[OF assms(2,5,6)]
  by (auto simp: extract_work_item_link_def)

lemma py_in_str: "py_in x (JStr s) = Inr (py_contains x s)"
  by simp

lemma format_comment_returns:
  assumes "is_obj md" "is_obj dmd" "is_obj r" "is_obj rf" "well_typed_comment md dmd r rf"
  shows "\<exists>res. format_comment md dmd r rf pn = Inr res"
proof -
  from assms obtain s where s: "extract_comment_text dmd rf = Inr (JStr s)"
    using extract_comment_text_returns[of dmd rf] by (auto simp: well_typed_comment_def)
  from assms obtain l where l: "extract_work_item_link md r = Inr l"
    using extract_work_item_link_returns[of md r] by (auto simp: well_typed_comment_def)
  from assms have cb: "is_obj (obj_field rf (u ''System.ChangedBy''))"
    by (simp add: well_typed_comment_def)
  show ?thesis
    using assms(3,4) cb by (simp add: format_comment_def py_get_obj s l)
qed

lemma strip_ref_returns:
  "str_or_missing (field r k) \<Longrightarrow> \<exists>b. strip_ref (get_or r k (JStr d)) = Inr b"
  using get_or_str[of r k d] by (auto simp: strip_ref_def)

lemma format_pull_request_returns:
  assumes "is_obj r" "well_typed_pull_request r"
  shows "\<exists>m. format_pull_request r pn = Inr (Some m)"
proof -
  from assms(2) obtain sb where sb: "strip_ref (get_or r (u ''sourceRefName'') (JStr (u ''N/A''))) = Inr sb"
    using strip_ref_returns[of r "u ''sourceRefName''"] by (auto simp: well_typed_pull_request_def)
  from assms(2) obtain tb where tb: "strip_ref (get_or r (u ''targetRefName'') (JStr (u ''N/A''))) = Inr tb"
    using strip_ref_returns[of r "u ''targetRefName''"] by (auto simp: well_typed_pull_request_def)
  show ?thesis
    using assms by (simp add: format_pull_request_def well_typed_pull_request_def py_get_obj sb tb)
qed

lemma format_returns:
  assumes "well_typed payload"
  shows "\<exists>res. format_ado_event_card payload = Inr res"
proof -
  from assms have top: "well_typed_top payload" by (simp add: well_typed_def)
  then obtain pn where pn:
    "top_project_name payload (obj_field (obj_field payload (u ''resource'')) (u ''fields'')) = Inr pn"
    using top_project_name_returns by blast
  from top have objs: "is_obj payload" "is_obj (obj_field payload (u ''message''))"
    "is_obj (obj_field payload (u ''detailedMessage''))" "is_obj (obj_field payload (u ''resource''))"
    "is_obj (obj_field (obj_field payload (u ''resource'')) (u ''fields''))"
    by (simp_all add: well_typed_top_def)
  from assms objs obtain rc where rc:
    "format_comment (obj_field payload (u ''message'')) (obj_field payload (u ''detailedMessage''))
       (obj_field payload (u ''resource'')) (obj_field (obj_field payload (u ''resource'')) (u ''fields'')) pn = Inr rc"
    using format_comment_returns[of "obj_field payload (u ''message'')" "obj_field payload (u ''detailedMessage'')"
        "obj_field payload (u ''resource'')" "obj_field (obj_field payload (u ''resource'')) (u ''fields'')" pn]
    by (auto simp: well_typed_def)
  from assms objs obtain m where m:
    "format_pull_request (obj_field payload (u ''resource'')) pn = Inr (Some m)"
    using format_pull_request_returns[of "obj_field payload (u ''resource'')" pn]
    by (auto simp: well_typed_def)
  show ?thesis
    using objs by (simp add: format_ado_event_card_def py_get_obj pn rc m)
qed

lemma bind_Inl_iff: "bind m f = Inl e \<longleftrightarrow> m = Inl e \<or> (\<exists>x. m = Inr x \<and> f x = Inl e)"
  by (cases m) simp_all

lemma raised_simps [simp]: "raised (Inr x)" "raised (Inl AttributeError)" "raised (Inl TypeError)"
  by (simp_all add: raised_def)

lemma raised_bind: "raised m \<Longrightarrow> (\<And>x. raised (f x)) \<Longrightarrow> raised (bind m f)"
  by (cases m) (auto simp: raised_def)

lemma raised_py_get [simp]: "raised (py_get v k d)"
  by (cases v) simp_all

lemma raised_if: "raised a \<Longrightarrow> raised b \<Longrightarrow> raised (if c then a else b)"
  by simp

lemma raised_py_in [simp]: "raised (py_in x v)"
  by (cases v) simp_all

lemma raised_strip_ref [simp]: "raised (strip_ref v)"
  by (cases v) (simp_all add: strip_ref_def)

lemma raised_top_project_name [simp]: "raised (top_project_name p rf)"
  unfolding top_project_name_def by (intro raised_bind raised_if) simp_all

lemma raised_extract_comment_text [simp]: "raised (extract_comment_text d rf)"
  unfolding extract_comment_text_def
  by (intro raised_bind raised_if) (simp_all add: Let_def split: json.splits)

lemma raised_markdown_link [simp]: "raised (markdown_link md)"
  unfolding markdown_link_def by (intro raised_bind raised_if) (simp_all split: json.splits)

lemma raised_html_link [simp]: "raised (html_link md)"
  unfolding html_link_def by (intro raised_bind raised_if) (simp_all split: json.splits)

lemma raised_resource_link [simp]: "raised (resource_link r)"
  unfolding resource_link_def by (intro raised_bind) simp_all

lemma raised_extract_work_item_link [simp]: "raised (extract_work_item_link md r)"
  unfolding extract_work_item_link_def by (intro raised_bind raised_if) simp_all

lemma raised_format_comment [simp]: "raised (format_comment md dmd r rf pn)"
  unfolding format_comment_def by (intro raised_bind raised_if) simp_all

lemma raised_format_pull_request [simp]: "raised (format_pull_request r pn)"
  unfolding format_pull_request_def by (intro raised_bind raised_if) simp_all

lemma raised_format [simp]: "raised (format_ado_event_card p)"
  unfolding format_ado_event_card_def by (intro raised_bind raised_if) simp_all

lemma replace_na: "py_replace (u ''refs/heads/'') [] (u ''N/A'') = u ''N/A''"
  by (simp add: u_def)

section \<open>The formatter and exceptions\<close>

text \<open>
  Claim C3, as amended. The formatter is a total function of the payload. On a well-typed
  payload it returns, a Chat Message or nothing, and raises nothing; whatever the payload,
  the only exceptions it raises are \<open>AttributeError\<close> and \<open>TypeError\<close>. Missing fields
  become placeholders: the empty object yields nothing, and a pull-request event with no
  other field yields the card filled with \<open>N/A\<close>, \<open>Unknown Project\<close> and \<open>#\<close>.
\<close>

theorem format_returns_when_well_typed:
  "(well_typed payload \<longrightarrow> (\<exists>res. format_ado_event_card payload = Inr res)) \<and>
   (\<forall>e. format_ado_event_card payload = Inl e \<longrightarrow> e = AttributeError \<or> e = TypeError) \<and>
   format_ado_event_card (JObj []) = Inr None \<and>
   format_ado_event_card (JObj [(u ''eventType'', JStr (u ''git.pullrequest.created''))]) =
     Inr (Some (pr_card (JStr (u ''N/A'')) (JStr (u ''Unknown Project'')) (JStr (u ''N/A''))
                  (JStr (u ''N/A'')) (JStr (u ''N/A'')) (u ''N/A'') (u ''N/A'') hash))"
proof (intro conjI)
  show "well_typed payload \<longrightarrow> (\<exists>res. format_ado_event_card payload = Inr res)"
    using format_returns by blast
  show "\<forall>e. format_ado_event_card payload = Inl e \<longrightarrow> e = AttributeError \<or> e = TypeError"
    using raised_format[of payload] by (simp add: raised_def)
  show "format_ado_event_card (JObj []) = Inr None"
    by (simp add: format_ado_event_card_def top_project_name_def)
  show "format_ado_event_card (JObj [(u ''eventType'', JStr (u ''git.pullrequest.created''))]) =
     Inr (Some (pr_card (JStr (u ''N/A'')) (JStr (u ''Unknown Project'')) (JStr (u ''N/A''))
                  (JStr (u ''N/A'')) (JStr (u ''N/A'')) (u ''N/A'') (u ''N/A'') hash))"
    by (simp add: format_ado_event_card_def top_project_name_def format_pull_request_def
        strip_ref_def replace_na)
qed

lemma well_typed_pr_sample: "well_typed pr_sample"
  by (simp add: well_typed_def well_typed_top_def well_typed_comment_def well_typed_pull_request_def
      is_obj_def get_or_def field_def str_or_missing_def pr_sample_def)

theorem format_returns_when_well_typed_witness:
  "well_typed pr_sample \<and> (\<exists>res. format_ado_event_card pr_sample = Inr res)"
  using format_returns_when_well_typed[of pr_sample] well_typed_pr_sample by simp

text \<open>
  Claim C3 as stated fails: on the payload \<open>{"resource": null}\<close> the lookup
  \<open>resource.get('fields', {})\<close> of line 54 raises \<open>AttributeError\<close>.
\<close>

theorem format_raises_on_null_resource:
  "format_ado_event_card (JObj [(u ''resource'', JNull)]) = Inl AttributeError"
  by (simp add: format_ado_event_card_def)

section \<open>The Chat Message is well formed\<close>

lemma well_formed_chat_card:
  "well_formed_header h \<Longrightarrow> ws \<noteq> [] \<Longrightarrow> list_all is_widget ws \<Longrightarrow>
   well_formed_message (chat_card cid h ws)"
  by (simp add: well_formed_message_def chat_card_def well_formed_sections_def)

lemma is_widget_simps [simp]:
  "is_widget (button l x)" "is_widget (text_paragraph ps)" "is_widget (decorated_text l t)"
  by (simp_all add: is_widget_def button_def text_paragraph_def decorated_text_def)

lemma well_formed_comment_card:
  "well_formed_message (comment_card a b c d e f g h)"
  unfolding comment_card_def
  by (rule well_formed_chat_card) (simp_all add: well_formed_header_def)

lemma well_formed_pr_card:
  "well_formed_message (pr_card a b c d e f g h)"
  unfolding pr_card_def
  by (rule well_formed_chat_card) (simp_all add: well_formed_header_def)

lemma format_comment_well_formed:
  "format_comment md dmd r rf pn = Inr (Some m) \<Longrightarrow> well_formed_message m"
  unfolding format_comment_def
  by (auto simp: bind_Inr_iff well_formed_comment_card split: if_splits)

lemma format_pull_request_well_formed:
  "format_pull_request r pn = Inr (Some m) \<Longrightarrow> well_formed_message m"
  unfolding format_pull_request_def
  by (auto simp: bind_Inr_iff well_formed_pr_card split: if_splits)

lemma format_Some_well_formed:
  "format_ado_event_card payload = Inr (Some m) \<Longrightarrow> well_formed_message m"
  unfolding format_ado_event_card_def
  by (auto simp: bind_Inr_iff split: if_splits
      dest: format_comment_well_formed format_pull_request_well_formed)

text \<open>
  Claim C6. Whatever the payload, a result of the formatter is either nothing or a
  well-formed Chat Message: one card with an identifier, a header with title, subtitle and
  icon, and a non-empty list of widgets.
\<close>

theorem format_result_well_formed:
  "format_ado_event_card payload = Inr res \<Longrightarrow>
   res = None \<or> (\<exists>m. res = Some m \<and> well_formed_message m)"
  by (cases res) (auto dest: format_Some_well_formed)

lemma format_pr_sample:
  "format_ado_event_card pr_sample =
     Inr (Some (pr_card (JStr (u ''N/A'')) (JStr (u ''Unknown Project'')) (JInt 7)
                  (JStr (u ''N/A'')) (JStr (u ''N/A'')) (u ''feature'') (u ''main'') hash))"
  by (simp add: format_ado_event_card_def top_project_name_def format_pull_request_def
        strip_ref_def pr_sample_def u_def)

theorem format_result_well_formed_witness:
  "format_ado_event_card pr_sample =
     Inr (Some (pr_card (JStr (u ''N/A'')) (JStr (u ''Unknown Project'')) (JInt 7)
                  (JStr (u ''N/A'')) (JStr (u ''N/A'')) (u ''feature'') (u ''main'') hash)) \<and>
   well_formed_message (pr_card (JStr (u ''N/A'')) (JStr (u ''Unknown Project'')) (JInt 7)
                  (JStr (u ''N/A'')) (JStr (u ''N/A'')) (u ''feature'') (u ''main'') hash)"
  using format_result_well_formed[OF format_pr_sample] format_pr_sample by simp

section \<open>The mention filter on comments\<close>

lemma py_contains_iff: "py_contains sub s \<longleftrightarrow> (\<exists>pre post. s = pre @ sub @ post)"
proof (induction s)
  case Nil
  show ?case by auto
next
  case (Cons c cs)
  show ?case
  proof
    assume "py_contains sub (c # cs)"
    then consider "take (length sub) (c # cs) = sub" | "py_contains sub cs" by auto
    then show "\<exists>pre post. c # cs = pre @ sub @ post"
    proof cases
      case 1
      then have "c # cs = [] @ sub @ drop (length sub) (c # cs)"
        by (metis append_Nil append_take_drop_id)
      then show ?thesis by blast
    next
      case 2
      with Cons.IH obtain pre post where "cs = pre @ sub @ post" by blast
      then have "c # cs = (c # pre) @ sub @ post" by simp
      then show ?thesis by blast
    qed
  next
    assume "\<exists>pre post. c # cs = pre @ sub @ post"
    then obtain pre post where eq: "c # cs = pre @ sub @ post" by blast
    show "py_contains sub (c # cs)"
    proof (cases pre)
      case Nil
      with eq have "take (length sub) (c # cs) = sub" by simp
      then show ?thesis by simp
    next
      case (Cons p ps)
      with eq have "cs = ps @ sub @ post" by simp
      with Cons.IH have "py_contains sub cs" by blast
      then show ?thesis by simp
    qed
  qed
qed

lemma field_is_obj: "field v k = Some x \<Longrightarrow> is_obj v"
  by (cases v) (simp_all add: field_def is_obj_def)

lemma format_commented:
  assumes "field payload (u ''eventType'') = Some (JStr (u ''workitem.commented''))"
  shows "format_ado_event_card payload =
     bind (py_get payload (u ''message'') (JObj [])) (\<lambda>message_data.
     bind (py_get payload (u ''detailedMessage'') (JObj [])) (\<lambda>detailed_message_data.
     bind (py_get payload (u ''resource'') (JObj [])) (\<lambda>resource.
     bind (py_get resource (u ''fields'') (JObj [])) (\<lambda>resource_fields.
     bind (top_project_name payload resource_fields) (\<lambda>project_name.
     format_comment message_data detailed_message_data resource resource_fields project_name)))))"
  using assms field_is_obj[OF assms]
  by (simp add: format_ado_event_card_def py_get_obj get_or_def)

lemma format_comment_gate:
  "format_comment md dmd r rf pn = Inr res \<Longrightarrow>
   \<exists>ct. extract_comment_text dmd rf = Inr ct \<and> py_in tag_to_find ct = Inr (res \<noteq> None)"
  unfolding format_comment_def
  by (auto simp: bind_Inr_iff split: if_splits)

text \<open>
  Claim C1, as amended. For a \<open>workitem.commented\<close> event: whenever the formatter
  returns, it returns a Chat Message exactly when \<open>tag_to_find in comment_text\<close> is true,
  and nothing otherwise; on a well-typed payload it does return, the comment text is a
  string, and the test is that \<open>@Francisco Aliss\<close> is a substring of it, character by
  character.
\<close>

theorem comment_gate:
  assumes "field payload (u ''eventType'') = Some (JStr (u ''workitem.commented''))"
  shows "(format_ado_event_card payload = Inr res \<longrightarrow>
            (\<exists>ct. event_comment_text payload = Inr ct \<and> py_in tag_to_find ct = Inr (res \<noteq> None))) \<and>
         (well_typed payload \<longrightarrow>
            (\<exists>s r. event_comment_text payload = Inr (JStr s) \<and> format_ado_event_card payload = Inr r \<and>
                   (r \<noteq> None \<longleftrightarrow> (\<exists>pre post. s = pre @ tag_to_find @ post))))"
proof (intro conjI impI)
  assume ret: "format_ado_event_card payload = Inr res"
  from ret show "\<exists>ct. event_comment_text payload = Inr ct \<and> py_in tag_to_find ct = Inr (res \<noteq> None)"
    unfolding format_commented[OF assms] event_comment_text_def
    by (auto simp: bind_Inr_iff dest: format_comment_gate)
next
  assume wt: "well_typed payload"
  then obtain r where r: "format_ado_event_card payload = Inr r"
    using format_returns by blast
  from wt have objs: "is_obj payload" "is_obj (obj_field payload (u ''detailedMessage''))"
    "is_obj (obj_field payload (u ''resource''))"
    "is_obj (obj_field (obj_field payload (u ''resource'')) (u ''fields''))"
    by (simp_all add: well_typed_def well_typed_top_def)
  from wt obtain s where s: "extract_comment_text (obj_field payload (u ''detailedMessage''))
      (obj_field (obj_field payload (u ''resource'')) (u ''fields'')) = Inr (JStr s)"
    using extract_comment_text_returns[OF objs(2) objs(4)]
    by (auto simp: well_typed_def well_typed_comment_def)
  have ect: "event_comment_text payload = Inr (JStr s)"
    using objs s by (simp add: event_comment_text_def py_get_obj)
  from r obtain ct where "event_comment_text payload = Inr ct" "py_in tag_to_find ct = Inr (r \<noteq> None)"
    unfolding format_commented[OF assms] event_comment_text_def
    by (auto simp: bind_Inr_iff dest: format_comment_gate)
  with ect have "py_contains tag_to_find s \<longleftrightarrow> r \<noteq> None" by simp
  then have "r \<noteq> None \<longleftrightarrow> (\<exists>pre post. s = pre @ tag_to_find @ post)"
    by (simp add: py_contains_iff)
  with ect r
  show "\<exists>s r. event_comment_text payload = Inr (JStr s) \<and> format_ado_event_card payload = Inr r \<and>
              (r \<noteq> None \<longleftrightarrow> (\<exists>pre post. s = pre @ tag_to_find @ post))"
    by blast
qed

lemma comment_parts_tagged:
  "comment_parts (u ''Please review @Francisco Aliss'') = [u ''Please review @Francisco Aliss'']"
  by (simp add: comment_parts_def py_split_def py_strip_def u_def is_space_def)

lemma comment_parts_untagged:
  "comment_parts (u ''Please review'') = [u ''Please review'']"
  by (simp add: comment_parts_def py_split_def py_strip_def u_def is_space_def)

lemma contains_tagged: "py_contains tag_to_find (u ''Please review @Francisco Aliss'')"
  by (simp add: tag_to_find_def u_def)

lemma contains_untagged: "\<not> py_contains tag_to_find (u ''Please review'')"
  by (simp add: tag_to_find_def u_def)

lemma sample_differs [simp]:
  "u ''Please review @Francisco Aliss'' \<noteq> no_comment_text" "u ''Please review'' \<noteq> no_comment_text"
  by (simp_all add: no_comment_text_def)

lemma extract_tagged:
  "extract_comment_text (JObj [(u ''text'', JStr (u ''Please review @Francisco Aliss''))]) (JObj []) =
     Inr (JStr (u ''Please review @Francisco Aliss''))"
  by (simp add: extract_comment_text_def comment_parts_tagged)

lemma extract_untagged:
  "extract_comment_text (JObj [(u ''text'', JStr (u ''Please review''))]) (JObj []) =
     Inr (JStr (u ''Please review''))"
  by (simp add: extract_comment_text_def comment_parts_untagged)

lemma link_none: "extract_work_item_link (JObj []) (JObj []) = Inr hash"
  by (simp add: extract_work_item_link_def markdown_link_def html_link_def resource_link_def)

lemma format_comment_sample_tagged:
  "format_ado_event_card (comment_sample (u ''Please review @Francisco Aliss'')) =
     Inr (Some (comment_card (JStr (u ''N/A'')) (JStr (u ''Work Item'')) (JStr (u ''N/A''))
                  (JStr (u ''Unknown User'')) (JStr (u ''Unknown Project''))
                  (JStr (u ''Please review @Francisco Aliss'')) hash (JStr (u ''N/A''))))"
  by (simp add: format_ado_event_card_def comment_sample_def top_project_name_def format_comment_def
      extract_tagged link_none contains_tagged)

lemma format_comment_sample_untagged:
  "format_ado_event_card (comment_sample (u ''Please review'')) = Inr None"
  by (simp add: format_ado_event_card_def comment_sample_def top_project_name_def format_comment_def
      extract_untagged link_none contains_untagged)

lemma well_typed_comment_sample: "well_typed (comment_sample txt)"
  by (simp add: well_typed_def well_typed_top_def well_typed_comment_def well_typed_pull_request_def
      is_obj_def get_or_def field_def str_or_missing_def comment_sample_def)

lemma event_type_comment_sample:
  "field (comment_sample txt) (u ''eventType'') = Some (JStr (u ''workitem.commented''))"
  by (simp add: field_def comment_sample_def)

theorem comment_gate_witness:
  "field (comment_sample (u ''Please review @Francisco Aliss'')) (u ''eventType'') =
     Some (JStr (u ''workitem.commented'')) \<and>
   format_ado_event_card (comment_sample (u ''Please review @Francisco Aliss'')) =
     Inr (Some (comment_card (JStr (u ''N/A'')) (JStr (u ''Work Item'')) (JStr (u ''N/A''))
                  (JStr (u ''Unknown User'')) (JStr (u ''Unknown Project''))
                  (JStr (u ''Please review @Francisco Aliss'')) hash (JStr (u ''N/A'')))) \<and>
   (\<exists>ct. event_comment_text (comment_sample (u ''Please review @Francisco Aliss'')) = Inr ct \<and>
         py_in tag_to_find ct = Inr True) \<and>
   well_typed (comment_sample (u ''Please review @Francisco Aliss'')) \<and>
   (\<exists>s r. event_comment_text (comment_sample (u ''Please review @Francisco Aliss'')) = Inr (JStr s) \<and>
          format_ado_event_card (comment_sample (u ''Please review @Francisco Aliss'')) = Inr r \<and>
          (r \<noteq> None \<longleftrightarrow> (\<exists>pre post. s = pre @ tag_to_find @ post)))"
  using comment_gate[OF event_type_comment_sample,
      of "u ''Please review @Francisco Aliss''"
         "Some (comment_card (JStr (u ''N/A'')) (JStr (u ''Work Item'')) (JStr (u ''N/A''))
                  (JStr (u ''Unknown User'')) (JStr (u ''Unknown Project''))
                  (JStr (u ''Please review @Francisco Aliss'')) hash (JStr (u ''N/A'')))"]
    format_comment_sample_tagged well_typed_comment_sample event_type_comment_sample
  by simp

text \<open>
  Claim C1 as stated fails: on the payload \<open>{"eventType": "workitem.commented",
  "message": null, "detailedMessage": {"text": "Please review @Francisco Aliss"}}\<close> the
  comment text contains the mention, and the formatter returns no Chat Message: line 81,
  \<open>message_data.get('markdown')\<close>, raises \<open>AttributeError\<close>.
\<close>

theorem comment_gate_fails_on_null_message:
  "event_comment_text null_message_sample = Inr (JStr (u ''Please review @Francisco Aliss'')) \<and>
   py_contains tag_to_find (u ''Please review @Francisco Aliss'') \<and>
   format_ado_event_card null_message_sample = Inl AttributeError"
  by (simp add: event_comment_text_def null_message_sample_def extract_tagged contains_tagged
      format_ado_event_card_def top_project_name_def format_comment_def
      extract_work_item_link_def markdown_link_def)

section \<open>Pull requests\<close>

lemma py_get_Inr_iff: "py_get v k d = Inr x \<longleftrightarrow> is_obj v \<and> x = get_or v k d"
  by (cases v) (auto simp: is_obj_def get_or_def field_def)

lemma py_replace_absent: "\<not> py_contains old s \<Longrightarrow> py_replace old new s = s"
  by (induction old new s rule: py_replace.induct) auto

lemma py_replace_prefix:
  assumes "old \<noteq> []"
  shows "py_replace old new (old @ rest) = new @ py_replace old new rest"
proof -
  from assms obtain c cs where eq: "old @ rest = c # cs" by (cases old) auto
  have t: "take (length old) (c # cs) = old" using eq by (metis append_eq_conv_conj)
  have d: "drop (length old) (c # cs) = rest" using eq by (metis append_eq_conv_conj)
  have "py_replace old new (c # cs) = new @ py_replace old new rest"
    using assms t d by simp
  then show ?thesis by (simp add: eq)
qed

lemma branches_text_pr_card:
  "branches_text (pr_card a b c d e src tgt l) =
     Some (OFStr [Fmt (JStr src), Lit [32, 8594, 32], Fmt (JStr tgt)])"
  by (simp add: branches_text_def card_widgets_def pr_card_def chat_card_def decorated_text_def)

lemma format_pull_request_branches:
  assumes "format_pull_request r pn = Inr res"
  shows "\<exists>m src tgt. res = Some m \<and>
           get_or r (u ''sourceRefName'') (JStr (u ''N/A'')) = JStr src \<and>
           get_or r (u ''targetRefName'') (JStr (u ''N/A'')) = JStr tgt \<and>
           branches_text m =
             Some (OFStr [Fmt (JStr (py_replace (u ''refs/heads/'') [] src)), Lit [32, 8594, 32],
                          Fmt (JStr (py_replace (u ''refs/heads/'') [] tgt))])"
  using assms unfolding format_pull_request_def
  by (auto simp: bind_Inr_iff py_get_Inr_iff strip_ref_def branches_text_pr_card
      split: if_splits json.splits)

lemma format_pr_created:
  assumes "field payload (u ''eventType'') = Some (JStr (u ''git.pullrequest.created''))"
  shows "format_ado_event_card payload =
     bind (py_get payload (u ''message'') (JObj [])) (\<lambda>message_data.
     bind (py_get payload (u ''detailedMessage'') (JObj [])) (\<lambda>detailed_message_data.
     bind (py_get payload (u ''resource'') (JObj [])) (\<lambda>resource.
     bind (py_get resource (u ''fields'') (JObj [])) (\<lambda>resource_fields.
     bind (top_project_name payload resource_fields) (\<lambda>project_name.
     format_pull_request resource project_name)))))"
  using assms field_is_obj[OF assms]
  by (simp add: format_ado_event_card_def py_get_obj get_or_def)

text \<open>
  Claim C2, as amended. For a \<open>git.pullrequest.created\<close> event there is no filter:
  whenever the formatter returns, it returns a Chat Message, and on a well-typed payload it
  does return. The branches shown are \<open>sourceRefName\<close> and \<open>targetRefName\<close> (\<open>N/A\<close> when
  missing) with every occurrence of \<open>refs/heads/\<close> removed. A name that starts with
  \<open>refs/heads/\<close> and has no other occurrence loses just the prefix, and a name without
  any occurrence is unchanged.
\<close>

theorem pull_request_card:
  assumes "field payload (u ''eventType'') = Some (JStr (u ''git.pullrequest.created''))"
  shows "(format_ado_event_card payload = Inr res \<longrightarrow>
            (\<exists>m src tgt. res = Some m \<and>
               get_or (obj_field payload (u ''resource'')) (u ''sourceRefName'') (JStr (u ''N/A'')) = JStr src \<and>
               get_or (obj_field payload (u ''resource'')) (u ''targetRefName'') (JStr (u ''N/A'')) = JStr tgt \<and>
               branches_text m =
                 Some (OFStr [Fmt (JStr (py_replace (u ''refs/heads/'') [] src)), Lit [32, 8594, 32],
                              Fmt (JStr (py_replace (u ''refs/heads/'') [] tgt))]))) \<and>
         (well_typed payload \<longrightarrow> (\<exists>m. format_ado_event_card payload = Inr (Some m))) \<and>
         (\<forall>rest. \<not> py_contains (u ''refs/heads/'') rest \<longrightarrow>
                  py_replace (u ''refs/heads/'') [] (u ''refs/heads/'' @ rest) = rest) \<and>
         (\<forall>s. \<not> py_contains (u ''refs/heads/'') s \<longrightarrow> py_replace (u ''refs/heads/'') [] s = s)"
proof (intro conjI impI allI)
  assume "format_ado_event_card payload = Inr res"
  then show "\<exists>m src tgt. res = Some m \<and>
               get_or (obj_field payload (u ''resource'')) (u ''sourceRefName'') (JStr (u ''N/A'')) = JStr src \<and>
               get_or (obj_field payload (u ''resource'')) (u ''targetRefName'') (JStr (u ''N/A'')) = JStr tgt \<and>
               branches_text m =
                 Some (OFStr [Fmt (JStr (py_replace (u ''refs/heads/'') [] src)), Lit [32, 8594, 32],
                              Fmt (JStr (py_replace (u ''refs/heads/'') [] tgt))])"
    unfolding format_pr_created[OF assms]
    by (auto simp: bind_Inr_iff py_get_Inr_iff dest: format_pull_request_branches)
next
  assume wt: "well_typed payload"
  then obtain r where r: "format_ado_event_card payload = Inr r"
    using format_returns by blast
  then obtain m where "r = Some m"
    unfolding format_pr_created[OF assms]
    by (auto simp: bind_Inr_iff dest: format_pull_request_branches)
  with r show "\<exists>m. format_ado_event_card payload = Inr (Some m)" by blast
next
  fix rest assume "\<not> py_contains (u ''refs/heads/'') rest"
  then show "py_replace (u ''refs/heads/'') [] (u ''refs/heads/'' @ rest) = rest"
    by (simp add: py_replace_prefix py_replace_absent)
next
  fix s assume "\<not> py_contains (u ''refs/heads/'') s"
  then show "py_replace (u ''refs/heads/'') [] s = s"
    by (rule py_replace_absent)
qed

lemma format_nested_ref_sample:
  "format_ado_event_card nested_ref_sample =
     Inr (Some (pr_card (JStr (u ''N/A'')) (JStr (u ''Unknown Project'')) (JStr (u ''N/A''))
                  (JStr (u ''N/A'')) (JStr (u ''N/A'')) (u ''backup/main'') (u ''main'') hash))"
  by (simp add: format_ado_event_card_def top_project_name_def format_pull_request_def
        strip_ref_def nested_ref_sample_def u_def)

text \<open>
  Claim C2 as stated fails twice. The source branch \<open>refs/heads/backup/refs/heads/main\<close>
  is shown as \<open>backup/main\<close>, while stripping the prefix leaves
  \<open>backup/refs/heads/main\<close>: line 128 calls \<open>replace\<close>. And on a \<open>sourceRefName\<close> that is
  \<open>null\<close> the same line raises \<open>AttributeError\<close>, so no Chat Message is returned.
\<close>

theorem replace_is_not_prefix_stripping:
  "format_ado_event_card nested_ref_sample =
     Inr (Some (pr_card (JStr (u ''N/A'')) (JStr (u ''Unknown Project'')) (JStr (u ''N/A''))
                  (JStr (u ''N/A'')) (JStr (u ''N/A'')) (u ''backup/main'') (u ''main'') hash)) \<and>
   branches_text (pr_card (JStr (u ''N/A'')) (JStr (u ''Unknown Project'')) (JStr (u ''N/A''))
                  (JStr (u ''N/A'')) (JStr (u ''N/A'')) (u ''backup/main'') (u ''main'') hash) =
     Some (OFStr [Fmt (JStr (u ''backup/main'')), Lit [32, 8594, 32], Fmt (JStr (u ''main''))]) \<and>
   strip_prefix (u ''refs/heads/'') (u ''refs/heads/backup/refs/heads/main'') = u ''backup/refs/heads/main'' \<and>
   u ''backup/main'' \<noteq> u ''backup/refs/heads/main'' \<and>
   format_ado_event_card null_ref_sample = Inl AttributeError"
proof (intro conjI)
  show "strip_prefix (u ''refs/heads/'') (u ''refs/heads/backup/refs/heads/main'') = u ''backup/refs/heads/main''"
    by (simp add: strip_prefix_def u_def)
  show "format_ado_event_card null_ref_sample = Inl AttributeError"
    by (simp add: format_ado_event_card_def top_project_name_def format_pull_request_def
        strip_ref_def null_ref_sample_def)
qed (simp_all add: format_nested_ref_sample branches_text_pr_card)

lemma event_type_pr_sample:
  "field pr_sample (u ''eventType'') = Some (JStr (u ''git.pullrequest.created''))"
  by (simp add: field_def pr_sample_def)

lemma not_contains_main: "\<not> py_contains (u ''refs/heads/'') (u ''main'')"
  by (simp add: u_def)

theorem pull_request_card_witness:
  "field pr_sample (u ''eventType'') = Some (JStr (u ''git.pullrequest.created'')) \<and>
   format_ado_event_card pr_sample =
     Inr (Some (pr_card (JStr (u ''N/A'')) (JStr (u ''Unknown Project'')) (JInt 7)
                  (JStr (u ''N/A'')) (JStr (u ''N/A'')) (u ''feature'') (u ''main'') hash)) \<and>
   (\<exists>m src tgt. Some (pr_card (JStr (u ''N/A'')) (JStr (u ''Unknown Project'')) (JInt 7)
                  (JStr (u ''N/A'')) (JStr (u ''N/A'')) (u ''feature'') (u ''main'') hash) = Some m \<and>
       get_or (obj_field pr_sample (u ''resource'')) (u ''sourceRefName'') (JStr (u ''N/A'')) = JStr src \<and>
       get_or (obj_field pr_sample (u ''resource'')) (u ''targetRefName'') (JStr (u ''N/A'')) = JStr tgt \<and>
       branches_text m =
         Some (OFStr [Fmt (JStr (py_replace (u ''refs/heads/'') [] src)), Lit [32, 8594, 32],
                      Fmt (JStr (py_replace (u ''refs/heads/'') [] tgt))])) \<and>
   well_typed pr_sample \<and> (\<exists>m. format_ado_event_card pr_sample = Inr (Some m)) \<and>
   \<not> py_contains (u ''refs/heads/'') (u ''main'') \<and>
   py_replace (u ''refs/heads/'') [] (u ''refs/heads/'' @ u ''main'') = u ''main'' \<and>
   py_replace (u ''refs/heads/'') [] (u ''main'') = u ''main''"
  using pull_request_card[OF event_type_pr_sample, of
      "Some (pr_card (JStr (u ''N/A'')) (JStr (u ''Unknown Project'')) (JInt 7)
                  (JStr (u ''N/A'')) (JStr (u ''N/A'')) (u ''feature'') (u ''main'') hash)"]
    format_pr_sample well_typed_pr_sample event_type_pr_sample not_contains_main
  by simp

section \<open>The comment text\<close>

text \<open>What \<open>split\<close> and \<open>strip\<close> compute.\<close>

lemma py_split_from_nonempty: "py_split_from sep cur s \<noteq> []"
  by (induction sep cur s rule: py_split_from.induct) auto

lemma py_join_Cons: "xs \<noteq> [] \<Longrightarrow> py_join sep (x # xs) = x @ sep @ py_join sep xs"
  by (cases xs) auto

lemma py_join_split_from: "py_join sep (py_split_from sep cur s) = cur @ s"
proof (induction sep cur s rule: py_split_from.induct)
  case (1 sep cur)
  show ?case by simp
next
  case (2 sep cur c cs)
  show ?case
  proof (cases "sep \<noteq> [] \<and> take (length sep) (c # cs) = sep")
    case True
    then have "py_join sep (py_split_from sep cur (c # cs)) =
        cur @ sep @ py_join sep (py_split_from sep [] (drop (length sep) (c # cs)))"
      by (simp add: py_join_Cons py_split_from_nonempty)
    also have "\<dots> = cur @ sep @ drop (length sep) (c # cs)"
      using 2(1) True by simp
    also have "\<dots> = cur @ take (length sep) (c # cs) @ drop (length sep) (c # cs)"
      using True by simp
    finally show ?thesis by simp
  next
    case False
    then show ?thesis using 2(2) by auto
  qed
qed

lemma py_join_split: "py_join sep (py_split sep s) = s"
  by (simp add: py_split_def py_join_split_from)

lemma contains_index:
  "py_contains sep p \<Longrightarrow> sep \<noteq> [] \<Longrightarrow> \<exists>i < length p. take (length sep) (drop i (p @ s)) = sep"
proof -
  assume "py_contains sep p" "sep \<noteq> []"
  then obtain pre post where p: "p = pre @ sep @ post" by (auto simp: py_contains_iff)
  have "length pre < length p" using \<open>sep \<noteq> []\<close> p by simp
  moreover have "take (length sep) (drop (length pre) (p @ s)) = sep" by (simp add: p)
  ultimately show ?thesis by blast
qed

lemma py_split_from_pieces:
  "sep \<noteq> [] \<Longrightarrow> clear_of sep cur s \<Longrightarrow> p \<in> set (py_split_from sep cur s) \<Longrightarrow> \<not> py_contains sep p"
proof (induction sep cur s arbitrary: p rule: py_split_from.induct)
  case (1 sep cur)
  then show ?case using contains_index[of sep cur "[]"] by (auto simp: clear_of_def)
next
  case (2 sep cur c cs)
  show ?case
  proof (cases "take (length sep) (c # cs) = sep")
    case True
    with "2.prems" consider "p = cur" | "p \<in> set (py_split_from sep [] (drop (length sep) (c # cs)))"
      by auto
    then show ?thesis
    proof cases
      case 1
      then show ?thesis using "2.prems" contains_index[of sep cur "c # cs"] by (auto simp: clear_of_def)
    next
      case 2
      have "clear_of sep [] (drop (length sep) (c # cs))" by (simp add: clear_of_def)
      then show ?thesis using "2.IH"(1)[of p] True 2 "2.prems"(1) by blast
    qed
  next
    case False
    have "clear_of sep (cur @ [c]) cs"
      unfolding clear_of_def
    proof (intro allI impI)
      fix i assume "i < length (cur @ [c])"
      then consider "i < length cur" | "i = length cur" by fastforce
      then show "take (length sep) (drop i ((cur @ [c]) @ cs)) \<noteq> sep"
      proof cases
        case 1
        then show ?thesis using "2.prems"(2) by (simp add: clear_of_def)
      next
        case 2
        then show ?thesis using False by simp
      qed
    qed
    moreover from False "2.prems"(3) have "p \<in> set (py_split_from sep (cur @ [c]) cs)" by simp
    ultimately show ?thesis using "2.IH"(2)[of p] False "2.prems"(1) by blast
  qed
qed

lemma py_split_pieces: "sep \<noteq> [] \<Longrightarrow> p \<in> set (py_split sep s) \<Longrightarrow> \<not> py_contains sep p"
  using py_split_from_pieces[of sep "[]" s p] by (simp add: py_split_def clear_of_def)

lemma py_strip_decomp:
  "\<exists>l r. s = l @ py_strip s @ r \<and> list_all is_space l \<and> list_all is_space r"
proof -
  let ?t = "dropWhile is_space s"
  have 1: "s = takeWhile is_space s @ ?t" by simp
  have "?t = rev (dropWhile is_space (rev ?t)) @ rev (takeWhile is_space (rev ?t))"
    by (metis rev_append rev_rev_ident takeWhile_dropWhile_id)
  then have 2: "?t = py_strip s @ rev (takeWhile is_space (rev ?t))"
    by (simp add: py_strip_def)
  have "s = takeWhile is_space s @ py_strip s @ rev (takeWhile is_space (rev ?t))"
    using 1 2 by metis
  moreover have "list_all is_space (takeWhile is_space s)"
    by (simp add: list_all_iff) (meson set_takeWhileD)
  moreover have "list_all is_space (rev (takeWhile is_space (rev ?t)))"
    by (simp add: list_all_iff) (meson set_takeWhileD)
  ultimately show ?thesis by blast
qed

lemma py_strip_ends:
  "py_strip s \<noteq> [] \<Longrightarrow> \<not> is_space (hd (py_strip s)) \<and> \<not> is_space (last (py_strip s))"
proof -
  assume ne: "py_strip s \<noteq> []"
  let ?t = "dropWhile is_space s"
  let ?d = "dropWhile is_space (rev ?t)"
  from ne have d: "?d \<noteq> []" by (simp add: py_strip_def)
  then have t: "?t \<noteq> []" by (auto dest: set_dropWhileD)
  have "last (py_strip s) = hd ?d" using d by (simp add: py_strip_def last_rev)
  moreover have "\<not> is_space (hd ?d)" using d hd_dropWhile by blast
  moreover have "hd (py_strip s) = last ?d" using d by (simp add: py_strip_def hd_rev)
  moreover have "last ?d = last (rev ?t)"
    using d by (metis append_Nil2 last_appendR takeWhile_dropWhile_id)
  moreover have "last (rev ?t) = hd ?t" using t by (simp add: last_rev)
  moreover have "\<not> is_space (hd ?t)" using t hd_dropWhile by blast
  ultimately show ?thesis by simp
qed

lemma extract_comment_text_obj:
  assumes "is_obj dmd" "is_obj rf"
  shows "extract_comment_text dmd rf =
     (if truthy (get_or dmd (u ''text'') JNull)
      then (case get_or dmd (u ''text'') JNull of
              JStr s \<Rightarrow>
                if comment_parts s \<noteq> [] \<and> last (comment_parts s) \<noteq> no_comment_text
                then Inr (JStr (last (comment_parts s)))
                else Inr (get_or rf (u ''System.History'') (JStr (u ''Could not retrieve comment text.'')))
            | _ \<Rightarrow> Inl AttributeError)
      else Inr (get_or rf (u ''System.History'') (JStr (u ''Could not retrieve comment text.''))))"
  using assms
  by (auto simp: extract_comment_text_def py_get_obj Let_def split: json.splits)

text \<open>
  Claim C5, as amended. On a payload whose containers are objects, with
  \<open>detailed_text\<close> the \<open>text\<close> of \<open>detailedMessage\<close> (\<open>None\<close> when missing):
  (a) when it is a string, is split at every CR LF, each piece is stripped, the empty ones
  are dropped, and the last remaining piece is not the literal \<open>No comment text found.\<close>,
  that piece is the comment text; (b, c) when it is false, or no piece remains, or the last
  one is that literal, the comment text is \<open>System.History\<close> if the resource fields have
  it, and \<open>Could not retrieve comment text.\<close> if not; and a detailed text that is true and
  not a string raises \<open>AttributeError\<close>. The pieces joined by CR LF give the text back,
  and no piece contains CR LF.
\<close>

theorem comment_text_rule:
  fixes payload :: json
  defines "detailed_text \<equiv> get_or (obj_field payload (u ''detailedMessage'')) (u ''text'') JNull"
    and "resource_fields \<equiv> obj_field (obj_field payload (u ''resource'')) (u ''fields'')"
  assumes "well_typed_top payload"
  shows
    "(\<forall>txt. detailed_text = JStr txt \<and> comment_parts txt \<noteq> [] \<and> last (comment_parts txt) \<noteq> no_comment_text \<longrightarrow>
        event_comment_text payload = Inr (JStr (last (comment_parts txt)))) \<and>
     (\<not> truthy detailed_text \<or>
      (\<exists>txt. detailed_text = JStr txt \<and> (comment_parts txt = [] \<or> last (comment_parts txt) = no_comment_text)) \<longrightarrow>
        event_comment_text payload =
          Inr (case field resource_fields (u ''System.History'') of
                 Some history \<Rightarrow> history
               | None \<Rightarrow> JStr (u ''Could not retrieve comment text.''))) \<and>
     (truthy detailed_text \<and> (\<forall>txt. detailed_text \<noteq> JStr txt) \<longrightarrow>
        event_comment_text payload = Inl AttributeError) \<and>
     (\<forall>txt. comment_parts txt = filter (\<lambda>part. part \<noteq> []) (map py_strip (py_split [13, 10] txt)) \<and>
            py_join [13, 10] (py_split [13, 10] txt) = txt \<and>
            (\<forall>p \<in> set (py_split [13, 10] txt). \<not> py_contains [13, 10] p))"
proof -
  from assms(3) have objs: "is_obj payload" "is_obj (obj_field payload (u ''detailedMessage''))"
    "is_obj (obj_field payload (u ''resource''))" "is_obj resource_fields"
    by (simp_all add: well_typed_top_def resource_fields_def)
  have ect: "event_comment_text payload =
      extract_comment_text (obj_field payload (u ''detailedMessage'')) resource_fields"
    using objs by (simp add: event_comment_text_def py_get_obj resource_fields_def)
  note ex = extract_comment_text_obj[OF objs(2) objs(4), folded detailed_text_def]
  have a: "\<forall>txt. detailed_text = JStr txt \<and> comment_parts txt \<noteq> [] \<and> last (comment_parts txt) \<noteq> no_comment_text \<longrightarrow>
        event_comment_text payload = Inr (JStr (last (comment_parts txt)))"
  proof (intro allI impI)
    fix s assume h: "detailed_text = JStr s \<and> comment_parts s \<noteq> [] \<and> last (comment_parts s) \<noteq> no_comment_text"
    then have "s \<noteq> []" by (auto simp: comment_parts_def py_split_def py_strip_def)
    with h show "event_comment_text payload = Inr (JStr (last (comment_parts s)))"
      by (simp add: ect ex)
  qed
  have b: "\<not> truthy detailed_text \<or>
      (\<exists>txt. detailed_text = JStr txt \<and> (comment_parts txt = [] \<or> last (comment_parts txt) = no_comment_text)) \<longrightarrow>
        event_comment_text payload =
          Inr (case field resource_fields (u ''System.History'') of
                 Some history \<Rightarrow> history
               | None \<Rightarrow> JStr (u ''Could not retrieve comment text.''))"
  proof -
    have hist: "get_or resource_fields (u ''System.History'') (JStr (u ''Could not retrieve comment text.'')) =
        (case field resource_fields (u ''System.History'') of
           Some history \<Rightarrow> history
         | None \<Rightarrow> JStr (u ''Could not retrieve comment text.''))"
      by (simp add: get_or_def)
    show ?thesis by (auto simp: ect ex hist)
  qed
  have c: "truthy detailed_text \<and> (\<forall>txt. detailed_text \<noteq> JStr txt) \<longrightarrow>
        event_comment_text payload = Inl AttributeError"
    by (cases detailed_text) (auto simp: ect ex)
  have d: "\<forall>txt. comment_parts txt = filter (\<lambda>part. part \<noteq> []) (map py_strip (py_split [13, 10] txt)) \<and>
            py_join [13, 10] (py_split [13, 10] txt) = txt \<and>
            (\<forall>p \<in> set (py_split [13, 10] txt). \<not> py_contains [13, 10] p)"
    using py_split_pieces[of "[13, 10]"] by (auto simp: comment_parts_def py_join_split)
  from a b c d show ?thesis by blast
qed

lemma comment_parts_crlf:
  "comment_parts crlf_text = [u ''See below'', u ''Please review @Francisco Aliss'']"
  by (simp add: comment_parts_def py_split_def py_strip_def u_def is_space_def crlf_text_def)

lemma well_typed_top_samples:
  "well_typed_top crlf_sample" "well_typed_top pr_sample" "well_typed_top int_text_sample"
  "well_typed_top sentinel_sample"
  by (simp_all add: well_typed_top_def is_obj_def get_or_def field_def crlf_sample_def
      comment_sample_def pr_sample_def int_text_sample_def sentinel_sample_def)

lemma detailed_text_samples:
  "get_or (obj_field crlf_sample (u ''detailedMessage'')) (u ''text'') JNull = JStr crlf_text"
  "get_or (obj_field pr_sample (u ''detailedMessage'')) (u ''text'') JNull = JNull"
  "get_or (obj_field int_text_sample (u ''detailedMessage'')) (u ''text'') JNull = JInt 5"
  by (simp_all add: get_or_def field_def crlf_sample_def comment_sample_def pr_sample_def
      int_text_sample_def)

lemma history_pr_sample:
  "field (obj_field (obj_field pr_sample (u ''resource'')) (u ''fields'')) (u ''System.History'') = None"
  by (simp add: get_or_def field_def pr_sample_def)

theorem comment_text_rule_witness:
  "well_typed_top crlf_sample \<and>
   get_or (obj_field crlf_sample (u ''detailedMessage'')) (u ''text'') JNull = JStr crlf_text \<and>
   comment_parts crlf_text = [u ''See below'', u ''Please review @Francisco Aliss''] \<and>
   event_comment_text crlf_sample = Inr (JStr (u ''Please review @Francisco Aliss'')) \<and>
   well_typed_top pr_sample \<and>
   \<not> truthy (get_or (obj_field pr_sample (u ''detailedMessage'')) (u ''text'') JNull) \<and>
   event_comment_text pr_sample = Inr (JStr (u ''Could not retrieve comment text.'')) \<and>
   well_typed_top int_text_sample \<and>
   truthy (get_or (obj_field int_text_sample (u ''detailedMessage'')) (u ''text'') JNull) \<and>
   event_comment_text int_text_sample = Inl AttributeError \<and>
   py_join [13, 10] (py_split [13, 10] crlf_text) = crlf_text"
proof -
  note a = comment_text_rule[OF well_typed_top_samples(1)]
  note b = comment_text_rule[OF well_typed_top_samples(2)]
  note c = comment_text_rule[OF well_typed_top_samples(3)]
  have "last (comment_parts crlf_text) \<noteq> no_comment_text"
    by (simp add: comment_parts_crlf no_comment_text_def)
  with a have 1: "event_comment_text crlf_sample = Inr (JStr (u ''Please review @Francisco Aliss''))"
    by (simp add: detailed_text_samples comment_parts_crlf)
  from b have 2: "event_comment_text pr_sample = Inr (JStr (u ''Could not retrieve comment text.''))"
    by (simp add: detailed_text_samples history_pr_sample)
  from c have 3: "event_comment_text int_text_sample = Inl AttributeError"
    by (simp add: detailed_text_samples)
  from a have 4: "py_join [13, 10] (py_split [13, 10] crlf_text) = crlf_text"
    by blast
  from 1 2 3 4 show ?thesis
    by (simp add: well_typed_top_samples detailed_text_samples comment_parts_crlf)
qed

lemma comment_parts_sentinel:
  "comment_parts (u ''No comment text found.'') = [u ''No comment text found.'']"
  by (simp add: comment_parts_def py_split_def py_strip_def u_def is_space_def)

lemma comment_parts_lf:
  "comment_parts (u ''Please review'' @ [10] @ u ''@Francisco Aliss'') =
     [u ''Please review'' @ [10] @ u ''@Francisco Aliss'']"
  by (simp add: comment_parts_def py_split_def py_strip_def u_def is_space_def)

text \<open>
  Claim C5 as stated fails. The detailed text \<open>No comment text found.\<close> has a last
  non-empty segment, itself, and yet the comment text is \<open>System.History\<close>: the segment
  equals the marker that line 77 tests. And a text whose lines are separated by LF alone
  is one segment: line 75 splits at CR LF only.
\<close>

theorem comment_text_sentinel_collision:
  "comment_parts (u ''No comment text found.'') = [u ''No comment text found.''] \<and>
   event_comment_text sentinel_sample = Inr (JStr (u ''Earlier remark'')) \<and>
   comment_parts (u ''Please review'' @ [10] @ u ''@Francisco Aliss'') =
     [u ''Please review'' @ [10] @ u ''@Francisco Aliss'']"
proof (intro conjI)
  show "comment_parts (u ''No comment text found.'') = [u ''No comment text found.'']"
    by (rule comment_parts_sentinel)
  show "event_comment_text sentinel_sample = Inr (JStr (u ''Earlier remark''))"
    by (simp add: comment_parts_sentinel event_comment_text_def sentinel_sample_def
        extract_comment_text_def no_comment_text_def)
  show "comment_parts (u ''Please review'' @ [10] @ u ''@Francisco Aliss'') =
     [u ''Please review'' @ [10] @ u ''@Francisco Aliss'']"
    by (rule comment_parts_lf)
qed

section \<open>The link to the work item\<close>

text \<open>What the two searches find.\<close>

lemma md_group_sound:
  "md_group s = Some g \<Longrightarrow> \<exists>post. s = g @ ch CHR '')'' # post \<and> 10 \<notin> set g \<and> ch CHR '')'' \<notin> set g"
proof (induction s arbitrary: g)
  case Nil
  then show ?case by simp
next
  case (Cons c cs)
  show ?case
  proof (cases "c = ch CHR '')''")
    case True
    with Cons.prems show ?thesis by auto
  next
    case False
    with Cons.prems obtain g' where g': "c \<noteq> 10" "md_group cs = Some g'" "g = c # g'"
      by (auto split: if_splits)
    from Cons.IH[OF g'(2)] obtain post where "cs = g' @ ch CHR '')'' # post" "10 \<notin> set g'" "ch CHR '')'' \<notin> set g'"
      by blast
    with g' False show ?thesis by auto
  qed
qed

lemma md_group_complete: "10 \<notin> set g \<Longrightarrow> md_group (g @ ch CHR '')'' # post) \<noteq> None"
  by (induction g) auto

lemma md_rest_sound:
  "md_rest s = Some g \<Longrightarrow>
   \<exists>lbl post. s = lbl @ ch CHR '']'' # ch CHR ''('' # g @ ch CHR '')'' # post \<and>
              10 \<notin> set lbl \<and> 10 \<notin> set g \<and> ch CHR '')'' \<notin> set g"
proof (induction s arbitrary: g)
  case Nil
  then show ?case by simp
next
  case (Cons c cs)
  let ?first = "if c = ch CHR '']'' \<and> take 1 cs = [ch CHR ''(''] then md_group (drop 1 cs) else None"
  show ?case
  proof (cases ?first)
    case (Some g0)
    with Cons.prems have g0: "g0 = g" by simp
    from Some have c: "c = ch CHR '']''" and t: "take 1 cs = [ch CHR ''('']" and m: "md_group (drop 1 cs) = Some g"
      unfolding g0 by (auto split: if_splits)
    from t have cs: "cs = ch CHR ''('' # drop 1 cs"
      by (metis append_Cons append_Nil append_take_drop_id)
    from md_group_sound[OF m] obtain post where
      p: "drop 1 cs = g @ ch CHR '')'' # post" "10 \<notin> set g" "ch CHR '')'' \<notin> set g" by blast
    have "c # cs = [] @ ch CHR '']'' # ch CHR ''('' # g @ ch CHR '')'' # post"
      using c cs p(1) by simp
    with p show ?thesis by (metis empty_iff empty_set)
  next
    case None
    with Cons.prems have c10: "c \<noteq> 10" and r: "md_rest cs = Some g"
      by (auto split: if_splits)
    from Cons.IH[OF r] obtain lbl post where
      p: "cs = lbl @ ch CHR '']'' # ch CHR ''('' # g @ ch CHR '')'' # post"
        "10 \<notin> set lbl" "10 \<notin> set g" "ch CHR '')'' \<notin> set g" by blast
    have "c # cs = (c # lbl) @ ch CHR '']'' # ch CHR ''('' # g @ ch CHR '')'' # post"
      using p(1) by simp
    moreover have "10 \<notin> set (c # lbl)" using c10 p(2) by simp
    ultimately show ?thesis using p(3,4) by blast
  qed
qed

lemma md_rest_complete:
  "10 \<notin> set lbl \<Longrightarrow> 10 \<notin> set g \<Longrightarrow>
   md_rest (lbl @ ch CHR '']'' # ch CHR ''('' # g @ ch CHR '')'' # post) \<noteq> None"
proof (induction lbl)
  case Nil
  then show ?case using md_group_complete[of g post] by auto
next
  case (Cons c lbl)
  then show ?case by (auto split: option.splits)
qed

lemma md_search_sound:
  "md_search s = Some g \<Longrightarrow>
   \<exists>pre lbl post. s = pre @ ch CHR ''['' # lbl @ ch CHR '']'' # ch CHR ''('' # g @ ch CHR '')'' # post \<and>
                  10 \<notin> set lbl \<and> 10 \<notin> set g \<and> ch CHR '')'' \<notin> set g"
proof (induction s arbitrary: g)
  case Nil
  then show ?case by simp
next
  case (Cons c cs)
  show ?case
  proof (cases "if c = ch CHR ''['' then md_rest cs else None")
    case (Some g0)
    with Cons.prems have c: "c = ch CHR ''[''" and r: "md_rest cs = Some g"
      by (auto split: if_splits)
    from md_rest_sound[OF r] obtain lbl post where
      p: "cs = lbl @ ch CHR '']'' # ch CHR ''('' # g @ ch CHR '')'' # post"
        "10 \<notin> set lbl" "10 \<notin> set g" "ch CHR '')'' \<notin> set g" by blast
    have "c # cs = [] @ ch CHR ''['' # lbl @ ch CHR '']'' # ch CHR ''('' # g @ ch CHR '')'' # post"
      using c p(1) by simp
    with p(2,3,4) show ?thesis by blast
  next
    case None
    with Cons.prems have r: "md_search cs = Some g" by simp
    from Cons.IH[OF r] obtain pre lbl post where
      p: "cs = pre @ ch CHR ''['' # lbl @ ch CHR '']'' # ch CHR ''('' # g @ ch CHR '')'' # post"
        "10 \<notin> set lbl" "10 \<notin> set g" "ch CHR '')'' \<notin> set g" by blast
    have "c # cs = (c # pre) @ ch CHR ''['' # lbl @ ch CHR '']'' # ch CHR ''('' # g @ ch CHR '')'' # post"
      using p(1) by simp
    with p(2,3,4) show ?thesis by blast
  qed
qed

lemma md_search_complete:
  "10 \<notin> set lbl \<Longrightarrow> 10 \<notin> set g \<Longrightarrow>
   md_search (pre @ ch CHR ''['' # lbl @ ch CHR '']'' # ch CHR ''('' # g @ ch CHR '')'' # post) \<noteq> None"
proof (induction pre)
  case Nil
  then show ?case using md_rest_complete[of lbl g post] by auto
next
  case (Cons c pre)
  then show ?case by (auto split: option.splits)
qed

lemma md_search_skip: "ch CHR ''['' \<notin> set pre \<Longrightarrow> md_search (pre @ s) = md_search s"
  by (induction pre) auto

lemma html_group_sound:
  "html_group s = Some g \<Longrightarrow> \<exists>post. s = g @ [34, ch CHR ''>''] @ post \<and> 10 \<notin> set g"
proof (induction s arbitrary: g)
  case Nil
  then show ?case by simp
next
  case (Cons c cs)
  show ?case
  proof (cases "take 2 (c # cs) = [34, ch CHR ''>'']")
    case True
    then have "c # cs = [34, ch CHR ''>''] @ drop 2 (c # cs)"
      by (metis append_take_drop_id)
    moreover from True Cons.prems have "g = []" by simp
    ultimately show ?thesis by auto
  next
    case False
    with Cons.prems obtain g' where g': "c \<noteq> 10" "html_group cs = Some g'" "g = c # g'"
      by (auto split: if_splits)
    from Cons.IH[OF g'(2)] obtain post where "cs = g' @ [34, ch CHR ''>''] @ post" "10 \<notin> set g'"
      by blast
    with g' show ?thesis by auto
  qed
qed

lemma html_group_complete: "10 \<notin> set g \<Longrightarrow> html_group (g @ [34, ch CHR ''>''] @ post) \<noteq> None"
  by (induction g) auto

lemma html_search_sound:
  "html_search s = Some g \<Longrightarrow> \<exists>pre post. s = pre @ a_href @ g @ [34, ch CHR ''>''] @ post \<and> 10 \<notin> set g"
proof (induction s arbitrary: g)
  case Nil
  then show ?case by simp
next
  case (Cons c cs)
  show ?case
  proof (cases "if take (length a_href) (c # cs) = a_href
                then html_group (drop (length a_href) (c # cs)) else None")
    case (Some g0)
    with Cons.prems have t: "take (length a_href) (c # cs) = a_href"
      and r: "html_group (drop (length a_href) (c # cs)) = Some g"
      by (auto split: if_splits)
    from html_group_sound[OF r] obtain post where
      p: "drop (length a_href) (c # cs) = g @ [34, ch CHR ''>''] @ post" "10 \<notin> set g" by blast
    have "c # cs = take (length a_href) (c # cs) @ drop (length a_href) (c # cs)" by simp
    then have "c # cs = [] @ a_href @ g @ [34, ch CHR ''>''] @ post"
      using t p(1) by simp
    with p(2) show ?thesis by blast
  next
    case None
    with Cons.prems have r: "html_search cs = Some g" by simp
    from Cons.IH[OF r] obtain pre post where
      p: "cs = pre @ a_href @ g @ [34, ch CHR ''>''] @ post" "10 \<notin> set g" by blast
    have "c # cs = (c # pre) @ a_href @ g @ [34, ch CHR ''>''] @ post"
      using p(1) by simp
    with p(2) show ?thesis by blast
  qed
qed

lemma a_href_nonempty: "a_href \<noteq> []"
  by (simp add: a_href_def)

lemma html_search_complete:
  "10 \<notin> set g \<Longrightarrow> html_search (pre @ a_href @ g @ [34, ch CHR ''>''] @ post) \<noteq> None"
proof (induction pre)
  case Nil
  obtain c cs where eq: "a_href @ g @ [34, ch CHR ''>''] @ post = c # cs"
    by (metis a_href_nonempty append_is_Nil_conv neq_Nil_conv)
  have t: "take (length a_href) (c # cs) = a_href" using eq by (metis append_eq_conv_conj)
  have d: "drop (length a_href) (c # cs) = g @ [34, ch CHR ''>''] @ post"
    using eq by (metis append_eq_conv_conj)
  have "html_search (c # cs) \<noteq> None"
    using t d html_group_complete[OF Nil, of post] by (auto split: option.splits)
  then show ?case by (metis append_Nil eq)
next
  case (Cons c pre)
  then show ?case by (auto split: option.splits)
qed

lemma markdown_link_obj:
  assumes "is_obj md" "str_or_missing (field md (u ''markdown''))"
  shows "markdown_link md = Inr (case md_source md of Some l \<Rightarrow> l | None \<Rightarrow> hash)"
  using assms(1) str_or_missing_cases[OF assms(2)]
  by (auto simp: markdown_link_def md_source_def py_get_obj get_or_def split: option.splits)

lemma html_link_obj:
  assumes "is_obj md" "str_or_missing (field md (u ''html''))"
  shows "html_link md = Inr (case html_source md of Some l \<Rightarrow> l | None \<Rightarrow> hash)"
  using assms(1) str_or_missing_cases[OF assms(2)]
  by (auto simp: html_link_def html_source_def py_get_obj get_or_def split: option.splits)

lemma resource_link_obj:
  assumes "is_obj r" "is_obj (obj_field r (u ''_links''))"
    "is_obj (obj_field (obj_field r (u ''_links'')) (u ''html''))"
  shows "resource_link r = Inr (case direct_source r of Some l \<Rightarrow> l | None \<Rightarrow> hash)"
  unfolding resource_link_returns[OF assms]
  by (simp add: direct_source_def get_or_def split: option.splits)

lemma extract_work_item_link_obj:
  assumes "is_obj md" "is_obj r" "str_or_missing (field md (u ''markdown''))"
    "str_or_missing (field md (u ''html''))" "is_obj (obj_field r (u ''_links''))"
    "is_obj (obj_field (obj_field r (u ''_links'')) (u ''html''))"
  shows "extract_work_item_link md r = Inr (first_real [md_source md, html_source md, direct_source r])"
  unfolding extract_work_item_link_def markdown_link_obj[OF assms(1,3)] html_link_obj[OF assms(1,4)]
    resource_link_obj[OF assms(2,5,6)]
  by (auto split: option.splits)

lemma extract_work_item_link_messages:
  assumes "is_obj md" "str_or_missing (field md (u ''markdown''))"
    "str_or_missing (field md (u ''html''))"
  shows "extract_work_item_link md r =
     (if first_real [md_source md, html_source md] \<noteq> hash
      then Inr (first_real [md_source md, html_source md])
      else resource_link r)"
  unfolding extract_work_item_link_def markdown_link_obj[OF assms(1,2)] html_link_obj[OF assms(1,3)]
  by (auto split: option.splits)

lemma resource_link_raises:
  assumes "is_obj r"
    "\<not> (is_obj (obj_field r (u ''_links'')) \<and> is_obj (obj_field (obj_field r (u ''_links'')) (u ''html'')))"
  shows "resource_link r = Inl AttributeError"
proof (cases "is_obj (obj_field r (u ''_links''))")
  case False
  then show ?thesis using assms(1) by (simp add: resource_link_def py_get_obj py_get_not_obj)
next
  case True
  with assms(2) have "\<not> is_obj (obj_field (obj_field r (u ''_links'')) (u ''html''))" by simp
  then show ?thesis using assms(1) True by (simp add: resource_link_def py_get_obj py_get_not_obj)
qed

lemma first_real_direct:
  "first_real [a, b] = hash \<Longrightarrow> first_real [a, b, c] = first_real [c]"
  by (cases a; cases b) (auto split: if_splits)

lemma first_real_found:
  "first_real [a, b] \<noteq> hash \<Longrightarrow> first_real [a, b, c] = first_real [a, b]"
  by (cases a; cases b) (auto split: if_splits)

text \<open>
  Claim C4, as amended. On a payload whose \<open>message\<close> and \<open>resource\<close> are objects and
  whose \<open>markdown\<close> and \<open>html\<close> are strings when present, the link is what the first of
  two sources yields that is not \<open>#\<close>: the group of the first match of
  \<open>\[.*?\]\((.*?)\)\<close> in \<open>markdown\<close>, then the group of the first match of
  \<open><a href="(.*?)">\<close> in \<open>html\<close> with \<open>&amp;\<close> replaced by \<open>&\<close>. So a markdown link
  other than \<open>#\<close> wins over every other source. When neither yields such a value the
  link is read from the resource: its \<open>_links.html.href\<close>, or its \<open>url\<close> when that is
  missing, or \<open>#\<close> when both are; this lookup raises \<open>AttributeError\<close> when \<open>_links\<close>
  or \<open>_links.html\<close> is present and not an object. A markdown match is a
  \<open>[label](group)\<close> on one line whose group has no \<open>)\<close>; an HTML match is
  \<open><a href="group">\<close> on one line.
\<close>

theorem work_item_link_order:
  fixes payload :: json
  defines "message_data \<equiv> obj_field payload (u ''message'')"
    and "resource \<equiv> obj_field payload (u ''resource'')"
  assumes "is_obj payload" "is_obj message_data" "is_obj resource"
    "str_or_missing (field message_data (u ''markdown''))"
    "str_or_missing (field message_data (u ''html''))"
  shows
    "(first_real [md_source message_data, html_source message_data] \<noteq> hash \<longrightarrow>
        event_work_item_link payload =
          Inr (first_real [md_source message_data, html_source message_data])) \<and>
     (first_real [md_source message_data, html_source message_data] = hash \<and>
      is_obj (obj_field resource (u ''_links'')) \<and>
      is_obj (obj_field (obj_field resource (u ''_links'')) (u ''html'')) \<longrightarrow>
        event_work_item_link payload = Inr (first_real [direct_source resource])) \<and>
     (first_real [md_source message_data, html_source message_data] = hash \<and>
      \<not> (is_obj (obj_field resource (u ''_links'')) \<and>
         is_obj (obj_field (obj_field resource (u ''_links'')) (u ''html''))) \<longrightarrow>
        event_work_item_link payload = Inl AttributeError) \<and>
     (is_obj (obj_field resource (u ''_links'')) \<and>
      is_obj (obj_field (obj_field resource (u ''_links'')) (u ''html'')) \<longrightarrow>
        event_work_item_link payload =
          Inr (first_real [md_source message_data, html_source message_data, direct_source resource])) \<and>
     (\<forall>l. md_source message_data = Some l \<and> l \<noteq> hash \<longrightarrow> event_work_item_link payload = Inr l) \<and>
     (\<forall>s g. md_search s = Some g \<longrightarrow>
        (\<exists>pre lbl post. s = pre @ ch CHR ''['' # lbl @ ch CHR '']'' # ch CHR ''('' # g @ ch CHR '')'' # post \<and>
                        10 \<notin> set lbl \<and> 10 \<notin> set g \<and> ch CHR '')'' \<notin> set g)) \<and>
     (\<forall>s g. html_search s = Some g \<longrightarrow>
        (\<exists>pre post. s = pre @ a_href @ g @ [34, ch CHR ''>''] @ post \<and> 10 \<notin> set g))"
proof -
  have ev: "event_work_item_link payload =
      (if first_real [md_source message_data, html_source message_data] \<noteq> hash
       then Inr (first_real [md_source message_data, html_source message_data])
       else resource_link resource)"
    using assms(3-5) extract_work_item_link_messages[OF assms(4,6,7)]
    by (simp add: event_work_item_link_def py_get_obj message_data_def resource_def)
  have 1: "first_real [md_source message_data, html_source message_data] \<noteq> hash \<longrightarrow>
        event_work_item_link payload =
          Inr (first_real [md_source message_data, html_source message_data])"
    by (simp add: ev)
  have 2: "first_real [md_source message_data, html_source message_data] = hash \<and>
      is_obj (obj_field resource (u ''_links'')) \<and>
      is_obj (obj_field (obj_field resource (u ''_links'')) (u ''html'')) \<longrightarrow>
        event_work_item_link payload = Inr (first_real [direct_source resource])"
    using resource_link_obj[OF assms(5)] by (auto simp: ev split: option.splits)
  have 3: "first_real [md_source message_data, html_source message_data] = hash \<and>
      \<not> (is_obj (obj_field resource (u ''_links'')) \<and>
         is_obj (obj_field (obj_field resource (u ''_links'')) (u ''html''))) \<longrightarrow>
        event_work_item_link payload = Inl AttributeError"
    using resource_link_raises[OF assms(5)] by (simp add: ev)
  have 4: "is_obj (obj_field resource (u ''_links'')) \<and>
      is_obj (obj_field (obj_field resource (u ''_links'')) (u ''html'')) \<longrightarrow>
        event_work_item_link payload =
          Inr (first_real [md_source message_data, html_source message_data, direct_source resource])"
  proof (cases "first_real [md_source message_data, html_source message_data] = hash")
    case True
    with 2 show ?thesis by (simp only: first_real_direct[OF True]) blast
  next
    case False
    with 1 show ?thesis by (simp only: first_real_found[OF False]) blast
  qed
  have 5: "\<forall>l. md_source message_data = Some l \<and> l \<noteq> hash \<longrightarrow> event_work_item_link payload = Inr l"
    by (auto simp: ev)
  from 1 2 3 4 5 show ?thesis
    using md_search_sound html_search_sound by blast
qed

lemma md_search_both:
  "md_search (u ''Comment on [Bug 5](http://x/5?a=1&b=2) added'') = Some (u ''http://x/5?a=1&b=2'')"
  by (simp add: u_def)

lemma html_search_anchor:
  "html_search (anchor (u ''http://y/5?a=1&amp;b=2'')) = Some (u ''http://y/5?a=1&amp;b=2'')"
  by (simp add: u_def anchor_def a_href_def)

lemma unescape_sample:
  "py_replace (u ''&amp;'') (u ''&'') (u ''http://y/5?a=1&amp;b=2'') = u ''http://y/5?a=1&b=2''"
  by (simp add: u_def)

lemma both_links_typed:
  "is_obj both_links_sample" "is_obj (obj_field both_links_sample (u ''message''))"
  "is_obj (obj_field both_links_sample (u ''resource''))"
  "str_or_missing (field (obj_field both_links_sample (u ''message'')) (u ''markdown''))"
  "str_or_missing (field (obj_field both_links_sample (u ''message'')) (u ''html''))"
  "is_obj (obj_field (obj_field both_links_sample (u ''resource'')) (u ''_links''))"
  "is_obj (obj_field (obj_field (obj_field both_links_sample (u ''resource'')) (u ''_links'')) (u ''html''))"
  by (simp_all add: both_links_sample_def is_obj_def get_or_def field_def str_or_missing_def)

lemma both_links_sources:
  "md_source (obj_field both_links_sample (u ''message'')) = Some (JStr (u ''http://x/5?a=1&b=2''))"
  "html_source (obj_field both_links_sample (u ''message'')) = Some (JStr (u ''http://y/5?a=1&b=2''))"
  "direct_source (obj_field both_links_sample (u ''resource'')) = Some (JStr (u ''http://z''))"
  by (simp_all add: both_links_sample_def md_source_def html_source_def direct_source_def
      get_or_def field_def md_search_both html_search_anchor unescape_sample)

lemma link_sample_typed:
  "is_obj resource_link_sample" "is_obj (obj_field resource_link_sample (u ''message''))"
  "is_obj (obj_field resource_link_sample (u ''resource''))"
  "str_or_missing (field (obj_field resource_link_sample (u ''message'')) (u ''markdown''))"
  "str_or_missing (field (obj_field resource_link_sample (u ''message'')) (u ''html''))"
  "is_obj null_links_sample" "is_obj (obj_field null_links_sample (u ''message''))"
  "is_obj (obj_field null_links_sample (u ''resource''))"
  "str_or_missing (field (obj_field null_links_sample (u ''message'')) (u ''markdown''))"
  "str_or_missing (field (obj_field null_links_sample (u ''message'')) (u ''html''))"
  by (simp_all add: resource_link_sample_def null_links_sample_def is_obj_def get_or_def field_def
      str_or_missing_def)

lemma link_sample_sources:
  "md_source (obj_field resource_link_sample (u ''message'')) = None"
  "html_source (obj_field resource_link_sample (u ''message'')) = None"
  "direct_source (obj_field resource_link_sample (u ''resource'')) = Some (JStr (u ''http://z''))"
  "is_obj (obj_field (obj_field resource_link_sample (u ''resource'')) (u ''_links''))"
  "is_obj (obj_field (obj_field (obj_field resource_link_sample (u ''resource'')) (u ''_links'')) (u ''html''))"
  "md_source (obj_field null_links_sample (u ''message'')) = None"
  "html_source (obj_field null_links_sample (u ''message'')) = None"
  "\<not> is_obj (obj_field (obj_field null_links_sample (u ''resource'')) (u ''_links''))"
  by (simp_all add: resource_link_sample_def null_links_sample_def md_source_def html_source_def
      direct_source_def is_obj_def get_or_def field_def)

theorem work_item_link_order_witness:
  "is_obj both_links_sample \<and> is_obj (obj_field both_links_sample (u ''message'')) \<and>
   is_obj (obj_field both_links_sample (u ''resource'')) \<and>
   str_or_missing (field (obj_field both_links_sample (u ''message'')) (u ''markdown'')) \<and>
   str_or_missing (field (obj_field both_links_sample (u ''message'')) (u ''html'')) \<and>
   is_obj (obj_field (obj_field both_links_sample (u ''resource'')) (u ''_links'')) \<and>
   is_obj (obj_field (obj_field (obj_field both_links_sample (u ''resource'')) (u ''_links'')) (u ''html'')) \<and>
   md_source (obj_field both_links_sample (u ''message'')) = Some (JStr (u ''http://x/5?a=1&b=2'')) \<and>
   html_source (obj_field both_links_sample (u ''message'')) = Some (JStr (u ''http://y/5?a=1&b=2'')) \<and>
   direct_source (obj_field both_links_sample (u ''resource'')) = Some (JStr (u ''http://z'')) \<and>
   JStr (u ''http://x/5?a=1&b=2'') \<noteq> hash \<and>
   event_work_item_link both_links_sample = Inr (JStr (u ''http://x/5?a=1&b=2'')) \<and>
   is_obj resource_link_sample \<and> is_obj (obj_field resource_link_sample (u ''message'')) \<and>
   is_obj (obj_field resource_link_sample (u ''resource'')) \<and>
   md_source (obj_field resource_link_sample (u ''message'')) = None \<and>
   html_source (obj_field resource_link_sample (u ''message'')) = None \<and>
   is_obj (obj_field (obj_field resource_link_sample (u ''resource'')) (u ''_links'')) \<and>
   is_obj (obj_field (obj_field (obj_field resource_link_sample (u ''resource'')) (u ''_links'')) (u ''html'')) \<and>
   event_work_item_link resource_link_sample = Inr (JStr (u ''http://z'')) \<and>
   is_obj null_links_sample \<and> is_obj (obj_field null_links_sample (u ''message'')) \<and>
   is_obj (obj_field null_links_sample (u ''resource'')) \<and>
   md_source (obj_field null_links_sample (u ''message'')) = None \<and>
   html_source (obj_field null_links_sample (u ''message'')) = None \<and>
   \<not> is_obj (obj_field (obj_field null_links_sample (u ''resource'')) (u ''_links'')) \<and>
   event_work_item_link null_links_sample = Inl AttributeError \<and>
   md_search (u ''Comment on [Bug 5](http://x/5?a=1&b=2) added'') = Some (u ''http://x/5?a=1&b=2'') \<and>
   (\<exists>pre lbl post. u ''Comment on [Bug 5](http://x/5?a=1&b=2) added'' =
        pre @ ch CHR ''['' # lbl @ ch CHR '']'' # ch CHR ''('' # u ''http://x/5?a=1&b=2'' @ ch CHR '')'' # post \<and>
        10 \<notin> set lbl \<and> 10 \<notin> set (u ''http://x/5?a=1&b=2'') \<and> ch CHR '')'' \<notin> set (u ''http://x/5?a=1&b=2'')) \<and>
   html_search (anchor (u ''http://y/5?a=1&amp;b=2'')) = Some (u ''http://y/5?a=1&amp;b=2'') \<and>
   (\<exists>pre post. anchor (u ''http://y/5?a=1&amp;b=2'') =
        pre @ a_href @ u ''http://y/5?a=1&amp;b=2'' @ [34, ch CHR ''>''] @ post \<and>
        10 \<notin> set (u ''http://y/5?a=1&amp;b=2''))"
proof -
  note r = work_item_link_order[OF both_links_typed(1-5)]
  note q = work_item_link_order[OF link_sample_typed(1-5)]
  note n = work_item_link_order[OF link_sample_typed(6-10)]
  have ne: "JStr (u ''http://x/5?a=1&b=2'') \<noteq> hash" by (simp add: hash_def)
  have nz: "JStr (u ''http://z'') \<noteq> hash" by (simp add: hash_def)
  have fr: "first_real [md_source (obj_field both_links_sample (u ''message'')),
                        html_source (obj_field both_links_sample (u ''message''))] =
            JStr (u ''http://x/5?a=1&b=2'')"
    using ne by (simp add: both_links_sources)
  from r fr ne have 1: "event_work_item_link both_links_sample = Inr (JStr (u ''http://x/5?a=1&b=2''))"
    by simp
  have fq: "first_real [md_source (obj_field resource_link_sample (u ''message'')),
                        html_source (obj_field resource_link_sample (u ''message''))] = hash"
    by (simp add: link_sample_sources)
  from q fq link_sample_sources(4,5)
  have "event_work_item_link resource_link_sample =
          Inr (first_real [direct_source (obj_field resource_link_sample (u ''resource''))])"
    by blast
  then have 2: "event_work_item_link resource_link_sample = Inr (JStr (u ''http://z''))"
    using nz by (simp add: link_sample_sources)
  have fn: "first_real [md_source (obj_field null_links_sample (u ''message'')),
                        html_source (obj_field null_links_sample (u ''message''))] = hash"
    by (simp add: link_sample_sources)
  from n fn link_sample_sources(8)
  have 3: "event_work_item_link null_links_sample = Inl AttributeError"
    by blast
  from r md_search_both have 4: "\<exists>pre lbl post. u ''Comment on [Bug 5](http://x/5?a=1&b=2) added'' =
        pre @ ch CHR ''['' # lbl @ ch CHR '']'' # ch CHR ''('' # u ''http://x/5?a=1&b=2'' @ ch CHR '')'' # post \<and>
        10 \<notin> set lbl \<and> 10 \<notin> set (u ''http://x/5?a=1&b=2'') \<and> ch CHR '')'' \<notin> set (u ''http://x/5?a=1&b=2'')"
    by blast
  from r html_search_anchor have 5: "\<exists>pre post. anchor (u ''http://y/5?a=1&amp;b=2'') =
        pre @ a_href @ u ''http://y/5?a=1&amp;b=2'' @ [34, ch CHR ''>''] @ post \<and>
        10 \<notin> set (u ''http://y/5?a=1&amp;b=2'')"
    by blast
  from 1 2 3 4 5 ne both_links_typed both_links_sources md_search_both html_search_anchor
    link_sample_typed link_sample_sources
  show ?thesis by (intro conjI)
qed

lemma anchor_nonempty: "anchor url \<noteq> []"
  by (simp add: anchor_def a_href_def)

lemma md_search_hash: "md_search (u ''[here](#)'') = Some (u ''#'')"
  by (simp add: u_def)

lemma html_search_y: "html_search (anchor (u ''http://y'')) = Some (u ''http://y'')"
  by (simp add: u_def anchor_def a_href_def)

lemma unescape_y: "py_replace (u ''&amp;'') (u ''&'') (u ''http://y'') = u ''http://y''"
  by (simp add: u_def)

lemma html_search_attr: "html_search attr_anchor = None"
  by (simp add: u_def a_href_def attr_anchor_def)

lemma attr_anchor_nonempty: "attr_anchor \<noteq> []"
  by (simp add: attr_anchor_def)

text \<open>
  Claim C4 as stated fails. With the markdown \<open>[here](#)\<close> and an HTML anchor to
  \<open>http://y\<close>, the markdown source succeeds first, with \<open>#\<close>, and yet the link is
  \<open>http://y\<close>: lines 85 and 90 test the link against \<open>#\<close>, not whether a source
  matched. And the anchor \<open><a class="c" href="http://y">\<close> has an \<open>href\<close> that the search
  of line 88 does not find, so the link stays \<open>#\<close>.
\<close>

theorem hash_link_is_skipped:
  "md_source (obj_field hash_link_sample (u ''message'')) = Some hash \<and>
   html_source (obj_field hash_link_sample (u ''message'')) = Some (JStr (u ''http://y'')) \<and>
   first_success [md_source (obj_field hash_link_sample (u ''message'')),
                  html_source (obj_field hash_link_sample (u ''message'')),
                  direct_source (obj_field hash_link_sample (u ''resource''))] = hash \<and>
   event_work_item_link hash_link_sample = Inr (JStr (u ''http://y'')) \<and>
   JStr (u ''http://y'') \<noteq> hash \<and>
   event_work_item_link attr_anchor_sample = Inr hash"
proof -
  have md: "md_source (obj_field hash_link_sample (u ''message'')) = Some hash"
    by (simp add: hash_link_sample_def md_source_def get_or_def field_def md_search_hash hash_def)
  have html: "html_source (obj_field hash_link_sample (u ''message'')) = Some (JStr (u ''http://y''))"
    by (simp add: hash_link_sample_def html_source_def get_or_def field_def html_search_y unescape_y)
  have link: "event_work_item_link hash_link_sample = Inr (JStr (u ''http://y''))"
    by (simp add: event_work_item_link_def hash_link_sample_def extract_work_item_link_def
        markdown_link_def html_link_def md_search_hash html_search_y unescape_y hash_def
        anchor_nonempty)
  have attr: "event_work_item_link attr_anchor_sample = Inr hash"
    by (simp add: event_work_item_link_def attr_anchor_sample_def extract_work_item_link_def
        markdown_link_def html_link_def resource_link_def html_search_attr attr_anchor_nonempty)
  have ne: "JStr (u ''http://y'') \<noteq> hash" by (simp add: hash_def)
  show ?thesis using md html link attr ne by simp
qed

section \<open>The handler: authentication\<close>

lemma takeWhile_neq: "c \<notin> set a \<Longrightarrow> takeWhile (\<lambda>x. x \<noteq> c) (a @ c # b) = a"
  by (induction a) auto

lemma dropWhile_neq: "c \<notin> set a \<Longrightarrow> dropWhile (\<lambda>x. x \<noteq> c) (a @ c # b) = c # b"
  by (induction a) auto

lemma split_once_two: "split_once c s = [a, b] \<longleftrightarrow> c \<notin> set a \<and> s = a @ c # b"
proof
  assume h: "split_once c s = [a, b]"
  then have cs: "c \<in> set s" by (auto simp: split_once_def split: if_splits)
  with h have a: "a = takeWhile (\<lambda>x. x \<noteq> c) s" and b: "b = tl (dropWhile (\<lambda>x. x \<noteq> c) s)"
    by (simp_all add: split_once_def)
  from cs have ne: "dropWhile (\<lambda>x. x \<noteq> c) s \<noteq> []" by simp
  then have "hd (dropWhile (\<lambda>x. x \<noteq> c) s) = c" using hd_dropWhile[OF ne] by simp
  with ne have "dropWhile (\<lambda>x. x \<noteq> c) s = c # b" unfolding b by (metis list.collapse)
  then have "s = a @ c # b" unfolding a by (metis takeWhile_dropWhile_id)
  moreover have "c \<notin> set a" unfolding a by (auto dest: set_takeWhileD)
  ultimately show "c \<notin> set a \<and> s = a @ c # b" by simp
next
  assume h: "c \<notin> set a \<and> s = a @ c # b"
  then have "takeWhile (\<lambda>x. x \<noteq> c) s = a" by (simp add: takeWhile_neq)
  moreover from h have "dropWhile (\<lambda>x. x \<noteq> c) s = c # b" by (simp add: dropWhile_neq)
  ultimately show "split_once c s = [a, b]" using h by (simp add: split_once_def)
qed

lemma split_once_one: "c \<notin> set s \<Longrightarrow> split_once c s = [s]"
  by (simp add: split_once_def)

lemma ascii_lower_space: "ascii_lower c = 32 \<longleftrightarrow> c = 32"
  by (auto simp: ascii_lower_def)

lemma starts_with_basic_split:
  assumes "starts_with_basic h"
  shows "split_once 32 h = [take 5 h, drop 6 h]"
proof -
  from assms have m: "map ascii_lower (take 6 h) = [98, 97, 115, 105, 99, 32]"
    by (simp add: starts_with_basic_def u_def)
  then have "length (map ascii_lower (take 6 h)) = 6" by simp
  then have len: "6 \<le> length h" by simp
  have "map ascii_lower (take 6 h) ! 5 = 32" by (simp add: m)
  then have "ascii_lower (h ! 5) = 32" using len by simp
  then have h5: "h ! 5 = 32" by (simp add: ascii_lower_space)
  have "drop 5 h = h ! 5 # drop (Suc 5) h"
    using len by (intro Cons_nth_drop_Suc[symmetric]) simp
  then have d: "drop 5 h = 32 # drop 6 h" by (simp add: h5)
  have h: "h = take 5 h @ 32 # drop 6 h"
    using d by (metis append_take_drop_id)
  have "take 5 (map ascii_lower (take 6 h)) = [98, 97, 115, 105, 99]" by (simp add: m)
  then have m5: "map ascii_lower (take 5 h) = [98, 97, 115, 105, 99]"
    by (simp add: take_map)
  have "32 \<notin> set (take 5 h)"
  proof
    assume "32 \<in> set (take 5 h)"
    then have "ascii_lower 32 \<in> set (map ascii_lower (take 5 h))" by (metis imageI set_map)
    then show False by (simp add: m5 ascii_lower_def)
  qed
  with h show ?thesis by (simp add: split_once_two)
qed

lemma check_credentials_iff:
  assumes "starts_with_basic h"
  shows "check_credentials L user pass h = Inr True \<longleftrightarrow>
         (b64decode_utf8 L (drop 6 h) = Inr (user @ 58 # pass) \<and> 58 \<notin> set user)"
proof -
  have cc: "check_credentials L user pass h =
      bind (b64decode_utf8 L (drop 6 h)) (\<lambda>decoded_credentials.
        (case split_once 58 decoded_credentials of
           [username, password] \<Rightarrow> Inr (username = user \<and> password = pass)
         | _ \<Rightarrow> Inl ValueError))"
    by (simp add: check_credentials_def starts_with_basic_split[OF assms])
  show ?thesis
  proof
    assume ok: "check_credentials L user pass h = Inr True"
    then obtain d where d: "b64decode_utf8 L (drop 6 h) = Inr d"
      and s: "(case split_once 58 d of [username, password] \<Rightarrow> Inr (username = user \<and> password = pass)
               | _ \<Rightarrow> Inl ValueError) = Inr True"
      unfolding cc by (auto simp: bind_Inr_iff)
    from s have "split_once 58 d = [user, pass]"
      by (auto split: list.splits)
    then have "58 \<notin> set user \<and> d = user @ 58 # pass" by (simp add: split_once_two)
    with d show "b64decode_utf8 L (drop 6 h) = Inr (user @ 58 # pass) \<and> 58 \<notin> set user" by simp
  next
    assume h: "b64decode_utf8 L (drop 6 h) = Inr (user @ 58 # pass) \<and> 58 \<notin> set user"
    then have "split_once 58 (user @ 58 # pass) = [user, pass]" by (simp add: split_once_two)
    with h show "check_credentials L user pass h = Inr True" by (simp add: cc)
  qed
qed

lemma check_credentials_decode_fails:
  "starts_with_basic h \<Longrightarrow> b64decode_utf8 L (drop 6 h) = Inl e \<Longrightarrow>
   check_credentials L user pass h = Inl e"
  by (simp add: check_credentials_def starts_with_basic_split)

lemma check_credentials_no_colon:
  "starts_with_basic h \<Longrightarrow> b64decode_utf8 L (drop 6 h) = Inr d \<Longrightarrow> 58 \<notin> set d \<Longrightarrow>
   check_credentials L user pass h = Inl ValueError"
  by (simp add: check_credentials_def starts_with_basic_split split_once_one)

lemma starts_with_basic_nonempty: "starts_with_basic h \<Longrightarrow> h \<noteq> []"
  by (auto simp: starts_with_basic_def u_def)

lemma auth_passed_iff:
  "auth_passed E L ev \<longleftrightarrow>
     (\<exists>user pass h. ADO_WEBHOOK_USER E = Some user \<and> user \<noteq> [] \<and>
        ADO_WEBHOOK_PASS E = Some pass \<and> pass \<noteq> [] \<and>
        auth_header_of ev = Some h \<and> starts_with_basic h \<and>
        b64decode_utf8 L (drop 6 h) = Inr (user @ 58 # pass) \<and> 58 \<notin> set user)"
proof
  assume a: "auth_passed E L ev"
  then obtain user pass where up: "ADO_WEBHOOK_USER E = Some user" "ADO_WEBHOOK_PASS E = Some pass"
    by (auto simp: auth_passed_def split: option.splits)
  with a have ne: "user \<noteq> []" "pass \<noteq> []"
    by (auto simp: auth_passed_def split: if_splits)
  with a up obtain h where h: "auth_header_of ev = Some h"
    by (auto simp: auth_passed_def split: option.splits)
  with a up ne have b: "starts_with_basic h"
    by (auto simp: auth_passed_def split: if_splits)
  with a up ne h have "check_credentials L user pass h = Inr True"
    by (auto simp: auth_passed_def starts_with_basic_nonempty split: sum.splits)
  then have "b64decode_utf8 L (drop 6 h) = Inr (user @ 58 # pass) \<and> 58 \<notin> set user"
    by (simp add: check_credentials_iff[OF b])
  with up ne h b show "\<exists>user pass h. ADO_WEBHOOK_USER E = Some user \<and> user \<noteq> [] \<and>
        ADO_WEBHOOK_PASS E = Some pass \<and> pass \<noteq> [] \<and>
        auth_header_of ev = Some h \<and> starts_with_basic h \<and>
        b64decode_utf8 L (drop 6 h) = Inr (user @ 58 # pass) \<and> 58 \<notin> set user"
    by blast
next
  assume "\<exists>user pass h. ADO_WEBHOOK_USER E = Some user \<and> user \<noteq> [] \<and>
        ADO_WEBHOOK_PASS E = Some pass \<and> pass \<noteq> [] \<and>
        auth_header_of ev = Some h \<and> starts_with_basic h \<and>
        b64decode_utf8 L (drop 6 h) = Inr (user @ 58 # pass) \<and> 58 \<notin> set user"
  then obtain user pass h where p: "ADO_WEBHOOK_USER E = Some user" "user \<noteq> []"
        "ADO_WEBHOOK_PASS E = Some pass" "pass \<noteq> []"
        "auth_header_of ev = Some h" "starts_with_basic h"
        "b64decode_utf8 L (drop 6 h) = Inr (user @ 58 # pass) \<and> 58 \<notin> set user"
    by blast
  from p(7) have "check_credentials L user pass h = Inr True"
    by (simp add: check_credentials_iff[OF p(6)])
  with p show "auth_passed E L ev"
    by (simp add: auth_passed_def starts_with_basic_nonempty)
qed

lemma auth_fail_closed:
  "\<not> env_truthy (ADO_WEBHOOK_USER E) \<or> \<not> env_truthy (ADO_WEBHOOK_PASS E) \<Longrightarrow> \<not> auth_passed E L ev"
  by (auto simp: auth_passed_iff env_truthy_def)

lemma process_status:
  "process_payload E L ev = Inr r \<Longrightarrow> statusCode r = 200 \<or> statusCode r = 500"
  by (auto simp: process_payload_def Let_def bind_Inr_iff respond_def no_notification_def
      split: if_splits option.splits)

lemma handler_post:
  "httpMethod ev = Some (u ''POST'') \<Longrightarrow>
   handler E L ev =
     (if \<not> auth_passed E L ev then respond 401 ''error'' ''Authentication Required''
      else (case process_payload E L ev of
              Inr r \<Rightarrow> r
            | Inl JSONDecodeError \<Rightarrow> respond 400 ''error'' ''Invalid JSON payload''
            | Inl e \<Rightarrow> respond 500 ''error'' ''Internal Server Error processing webhook''))"
  by (simp add: handler_def)

lemma handler_401_iff:
  assumes "httpMethod ev = Some (u ''POST'')"
  shows "statusCode (handler E L ev) = 401 \<longleftrightarrow> \<not> auth_passed E L ev"
proof (cases "auth_passed E L ev")
  case False
  then show ?thesis by (simp add: handler_post[OF assms] respond_def)
next
  case True
  show ?thesis
  proof (cases "process_payload E L ev")
    case (Inr r)
    with process_status[OF Inr] True show ?thesis by (auto simp: handler_post[OF assms])
  next
    case (Inl e)
    with True show ?thesis by (cases e) (simp_all add: handler_post[OF assms] respond_def)
  qed
qed

text \<open>
  Claim C7. For a POST request the handler answers 401 unless both credentials are
  configured and not empty, the \<open>authorization\<close> header begins with \<open>basic \<close> in any
  case, and what follows decodes to the configured user, a colon, and the configured
  password, the user being the part before the first colon. With a credential missing,
  with no header, when decoding fails, or when the decoded text has no colon, the answer is
  the 401 response.
\<close>

theorem basic_auth_required:
  assumes "httpMethod ev = Some (u ''POST'')"
  shows
    "(statusCode (handler E L ev) \<noteq> 401 \<longleftrightarrow>
        (\<exists>user pass h. ADO_WEBHOOK_USER E = Some user \<and> user \<noteq> [] \<and>
           ADO_WEBHOOK_PASS E = Some pass \<and> pass \<noteq> [] \<and>
           auth_header_of ev = Some h \<and> starts_with_basic h \<and>
           b64decode_utf8 L (drop 6 h) = Inr (user @ 58 # pass) \<and> 58 \<notin> set user)) \<and>
     (\<not> env_truthy (ADO_WEBHOOK_USER E) \<or> \<not> env_truthy (ADO_WEBHOOK_PASS E) \<longrightarrow>
        handler E L ev = respond 401 ''error'' ''Authentication Required'') \<and>
     (auth_header_of ev = None \<longrightarrow>
        handler E L ev = respond 401 ''error'' ''Authentication Required'') \<and>
     (\<forall>h e. auth_header_of ev = Some h \<and> b64decode_utf8 L (drop 6 h) = Inl e \<longrightarrow>
        handler E L ev = respond 401 ''error'' ''Authentication Required'') \<and>
     (\<forall>h d. auth_header_of ev = Some h \<and> b64decode_utf8 L (drop 6 h) = Inr d \<and> 58 \<notin> set d \<longrightarrow>
        handler E L ev = respond 401 ''error'' ''Authentication Required'')"
proof -
  have no: "\<not> auth_passed E L ev \<Longrightarrow> handler E L ev = respond 401 ''error'' ''Authentication Required''"
    by (simp add: handler_post[OF assms])
  have 1: "statusCode (handler E L ev) \<noteq> 401 \<longleftrightarrow>
        (\<exists>user pass h. ADO_WEBHOOK_USER E = Some user \<and> user \<noteq> [] \<and>
           ADO_WEBHOOK_PASS E = Some pass \<and> pass \<noteq> [] \<and>
           auth_header_of ev = Some h \<and> starts_with_basic h \<and>
           b64decode_utf8 L (drop 6 h) = Inr (user @ 58 # pass) \<and> 58 \<notin> set user)"
  proof -
    have "statusCode (handler E L ev) \<noteq> 401 \<longleftrightarrow> auth_passed E L ev"
      using handler_401_iff[OF assms, of E L] by simp
    then show ?thesis by (simp only: auth_passed_iff)
  qed
  have 2: "\<not> env_truthy (ADO_WEBHOOK_USER E) \<or> \<not> env_truthy (ADO_WEBHOOK_PASS E) \<longrightarrow>
        handler E L ev = respond 401 ''error'' ''Authentication Required''"
    using auth_fail_closed[of E L ev] no by blast
  have 3: "auth_header_of ev = None \<longrightarrow>
        handler E L ev = respond 401 ''error'' ''Authentication Required''"
    using no by (auto simp: auth_passed_iff)
  have 4: "\<forall>h e. auth_header_of ev = Some h \<and> b64decode_utf8 L (drop 6 h) = Inl e \<longrightarrow>
        handler E L ev = respond 401 ''error'' ''Authentication Required''"
    using no by (auto simp: auth_passed_iff)
  have 5: "\<forall>h d. auth_header_of ev = Some h \<and> b64decode_utf8 L (drop 6 h) = Inr d \<and> 58 \<notin> set d \<longrightarrow>
        handler E L ev = respond 401 ''error'' ''Authentication Required''"
  proof (intro allI impI)
    fix h d
    assume a: "auth_header_of ev = Some h \<and> b64decode_utf8 L (drop 6 h) = Inr d \<and> 58 \<notin> set d"
    have "\<not> auth_passed E L ev"
    proof
      assume "auth_passed E L ev"
      then obtain user pass h' where "auth_header_of ev = Some h'"
        "b64decode_utf8 L (drop 6 h') = Inr (user @ 58 # pass)"
        unfolding auth_passed_iff by blast
      with a have "d = user @ 58 # pass" by simp
      with a show False by simp
    qed
    then show "handler E L ev = respond 401 ''error'' ''Authentication Required''" by (rule no)
  qed
  from 1 2 3 4 5 show ?thesis by blast
qed

lemma sample_event_simps [simp]:
  "httpMethod (sample_event c b) = Some (u ''POST'')"
  "auth_header_of (sample_event c b) = Some (u ''Basic '' @ u c)"
  "body (sample_event c b) = b"
  by (simp_all add: sample_event_def auth_header_of_def)

lemma length_u [simp]: "length (u s) = length s"
  by (simp add: u_def)

lemma basic_header [simp]:
  "starts_with_basic (u ''Basic '' @ x)" "drop 6 (u ''Basic '' @ x) = x"
  by (simp_all add: starts_with_basic_def u_def ascii_lower_def)

lemma sample_env_simps [simp]:
  "ADO_WEBHOOK_USER sample_env = Some (u ''user'')"
  "ADO_WEBHOOK_PASS sample_env = Some (u ''pa:ss'')"
  "GOOGLE_CHAT_WEBHOOK_URL sample_env = Some (u ''https://chat.example/hook'')"
  by (simp_all add: sample_env_def)

lemma sample_lib_simps [simp]:
  "b64decode_utf8 (sample_lib code) = sample_decode"
  "json_loads (sample_lib code) = sample_loads"
  "requests_post (sample_lib code) url m = Response code"
  by (simp_all add: sample_lib_def)

lemma user_pass_literal: "u ''user:pa:ss'' = u ''user'' @ 58 # u ''pa:ss''"
  by (simp add: u_def)

lemma sample_decode_simps:
  "sample_decode (u ''dXNlcjpwYTpzcw=='') = Inr (u ''user'' @ 58 # u ''pa:ss'')"
  "sample_decode (u ''dXNlcjp3cm9uZw=='') = Inr (u ''user:wrong'')"
  "sample_decode (u ''dXNlcg=='') = Inr (u ''user'')"
  "sample_decode (u ''!!!'') = Inl ValueError"
  by (simp_all add: sample_decode_def user_pass_literal)

lemma sample_auth_passed: "auth_passed sample_env (sample_lib code) (sample_event ''dXNlcjpwYTpzcw=='' b)"
  unfolding auth_passed_iff
  by (simp add: sample_decode_simps) (simp add: u_def)

theorem basic_auth_required_witness:
  "httpMethod (sample_event ''dXNlcjpwYTpzcw=='' None) = Some (u ''POST'') \<and>
   statusCode (handler sample_env (sample_lib 200) (sample_event ''dXNlcjpwYTpzcw=='' None)) \<noteq> 401 \<and>
   ADO_WEBHOOK_USER sample_env = Some (u ''user'') \<and> ADO_WEBHOOK_PASS sample_env = Some (u ''pa:ss'') \<and>
   auth_header_of (sample_event ''dXNlcjpwYTpzcw=='' None) = Some (u ''Basic '' @ u ''dXNlcjpwYTpzcw=='') \<and>
   b64decode_utf8 (sample_lib 200) (u ''dXNlcjpwYTpzcw=='') = Inr (u ''user'' @ 58 # u ''pa:ss'') \<and>
   58 \<notin> set (u ''user'') \<and>
   \<not> env_truthy (ADO_WEBHOOK_PASS (sample_env\<lparr>ADO_WEBHOOK_PASS := None\<rparr>)) \<and>
   handler (sample_env\<lparr>ADO_WEBHOOK_PASS := None\<rparr>) (sample_lib 200) (sample_event ''dXNlcjpwYTpzcw=='' None) =
     respond 401 ''error'' ''Authentication Required'' \<and>
   b64decode_utf8 (sample_lib 200) (u ''!!!'') = Inl ValueError \<and>
   handler sample_env (sample_lib 200) (sample_event ''!!!'' None) =
     respond 401 ''error'' ''Authentication Required'' \<and>
   b64decode_utf8 (sample_lib 200) (u ''dXNlcg=='') = Inr (u ''user'') \<and> 58 \<notin> set (u ''user'') \<and>
   handler sample_env (sample_lib 200) (sample_event ''dXNlcg=='' None) =
     respond 401 ''error'' ''Authentication Required'' \<and>
   statusCode (handler sample_env (sample_lib 200) (sample_event ''dXNlcjp3cm9uZw=='' None)) = 401"
proof -
  have c58: "58 \<notin> set (u ''user'')" by (simp add: u_def)
  have 1: "statusCode (handler sample_env (sample_lib 200) (sample_event ''dXNlcjpwYTpzcw=='' None)) \<noteq> 401"
    using basic_auth_required[OF sample_event_simps(1)[of "''dXNlcjpwYTpzcw==''" None], where E = sample_env and L = "sample_lib 200"]
      sample_auth_passed[of 200 None]
    by (simp add: auth_passed_iff)
  have 2: "handler (sample_env\<lparr>ADO_WEBHOOK_PASS := None\<rparr>) (sample_lib 200) (sample_event ''dXNlcjpwYTpzcw=='' None) =
     respond 401 ''error'' ''Authentication Required''"
    using basic_auth_required[OF sample_event_simps(1)[of "''dXNlcjpwYTpzcw==''" None], where E = "sample_env\<lparr>ADO_WEBHOOK_PASS := None\<rparr>" and L = "sample_lib 200"]
    by (simp add: env_truthy_def)
  have 3: "handler sample_env (sample_lib 200) (sample_event ''!!!'' None) =
     respond 401 ''error'' ''Authentication Required''"
    using basic_auth_required[OF sample_event_simps(1)[of "''!!!''" None], where E = sample_env and L = "sample_lib 200"]
    by (simp add: sample_decode_simps)
  have 4: "handler sample_env (sample_lib 200) (sample_event ''dXNlcg=='' None) =
     respond 401 ''error'' ''Authentication Required''"
    using basic_auth_required[OF sample_event_simps(1)[of "''dXNlcg==''" None], where E = sample_env and L = "sample_lib 200"] c58
    by (simp add: sample_decode_simps)
  have "u ''user'' @ 58 # u ''pa:ss'' \<noteq> u ''user:wrong''" by (simp add: u_def)
  then have 5: "statusCode (handler sample_env (sample_lib 200) (sample_event ''dXNlcjp3cm9uZw=='' None)) = 401"
    using basic_auth_required[OF sample_event_simps(1)[of "''dXNlcjp3cm9uZw==''" None], where E = sample_env and L = "sample_lib 200"]
    by (simp add: sample_decode_simps)
  from 1 2 3 4 5 c58 show ?thesis
    by (simp add: sample_decode_simps env_truthy_def)
qed

section \<open>The handler: delivery and configuration\<close>






lemma process_payload_loaded:
  assumes "json_loads L (case body ev of None \<Rightarrow> u ''{}'' | Some b \<Rightarrow> b) = Inr payload"
  shows "process_payload E L ev =
     bind (py_get payload (u ''eventType'') (JStr (u ''unknown''))) (\<lambda>logged_event_type.
      if \<not> env_truthy (GOOGLE_CHAT_WEBHOOK_URL E)
      then Inr (respond 500 ''error'' ''Webhook processor configuration error'')
      else bind (format_ado_event_card payload) (\<lambda>chat_payload.
           (case chat_payload of
              None \<Rightarrow> Inr no_notification
            | Some m \<Rightarrow>
                if out_truthy m
                then (if send_to_google_chat E L m
                      then Inr (respond 200 ''success'' ''Webhook received and notification sent'')
                      else Inr (respond 500 ''error''
                                  ''Webhook received but failed to send notification to Google Chat''))
                else Inr no_notification)))"
  using assms by (simp add: process_payload_def Let_def)


lemma sample_loads_simps:
  "sample_loads (u ''{}'') = Inr (JObj [])"
  "sample_loads (u ''[]'') = Inr (JArr [])"
  "sample_loads (u ''build'') = Inr (JObj [(u ''eventType'', JStr (u ''build.complete''))])"
  "sample_loads (u ''pr'') = Inr pr_sample"
  by (simp_all add: sample_loads_def)




text \<open>
  Claim C9, as amended. For an authenticated POST with no \<open>body\<close> entry the handler
  parses \<open>{}\<close> instead, for which \<open>json.loads\<close> returns the empty dict; when the chat
  webhook URL is set the response is 200 with the no-notification message, never the 400
  response, and when it is not set the response is 500 with the configuration error.
\<close>

theorem absent_body:
  assumes "httpMethod ev = Some (u ''POST'')" "auth_passed E L ev" "body ev = None"
    "json_loads L (u ''{}'') = Inr (JObj [])"
  shows "handler E L ev =
     (if env_truthy (GOOGLE_CHAT_WEBHOOK_URL E) then no_notification
      else respond 500 ''error'' ''Webhook processor configuration error'')"
proof -
  have l: "json_loads L (case body ev of None \<Rightarrow> u ''{}'' | Some b \<Rightarrow> b) = Inr (JObj [])"
    using assms(3,4) by simp
  have f: "format_ado_event_card (JObj []) = Inr None"
    by (simp add: format_ado_event_card_def top_project_name_def)
  show ?thesis
    using assms(2)
    by (simp add: handler_post[OF assms(1)] process_payload_loaded[OF l] f)
qed

theorem absent_body_witness:
  "httpMethod (sample_event ''dXNlcjpwYTpzcw=='' None) = Some (u ''POST'') \<and>
   auth_passed sample_env (sample_lib 200) (sample_event ''dXNlcjpwYTpzcw=='' None) \<and>
   body (sample_event ''dXNlcjpwYTpzcw=='' None) = None \<and>
   json_loads (sample_lib 200) (u ''{}'') = Inr (JObj []) \<and>
   env_truthy (GOOGLE_CHAT_WEBHOOK_URL sample_env) \<and>
   handler sample_env (sample_lib 200) (sample_event ''dXNlcjpwYTpzcw=='' None) =
     respond 200 ''success'' ''Webhook received, no notification required''"
proof -
  have l: "json_loads (sample_lib 200) (u ''{}'') = Inr (JObj [])" by (simp add: sample_loads_simps)
  have url: "env_truthy (GOOGLE_CHAT_WEBHOOK_URL sample_env)" by (simp add: env_truthy_def)
  from absent_body[OF sample_event_simps(1) sample_auth_passed sample_event_simps(3) l] url
  have "handler sample_env (sample_lib 200) (sample_event ''dXNlcjpwYTpzcw=='' None) =
     respond 200 ''success'' ''Webhook received, no notification required''"
    by (simp add: no_notification_def)
  with l url sample_auth_passed show ?thesis by simp
qed

lemma auth_passed_no_url:
  "auth_passed (sample_env\<lparr>GOOGLE_CHAT_WEBHOOK_URL := None\<rparr>) (sample_lib code)
     (sample_event ''dXNlcjpwYTpzcw=='' b)"
  unfolding auth_passed_iff
  by (simp add: sample_decode_simps) (simp add: u_def)

text \<open>
  Claim C9 as stated fails: with \<open>GOOGLE_CHAT_WEBHOOK_URL\<close> not set, an authenticated
  POST without a body is answered with 500, the configuration error of line 210, and not
  with 200.
\<close>

theorem absent_body_without_url:
  "httpMethod (sample_event ''dXNlcjpwYTpzcw=='' None) = Some (u ''POST'') \<and>
   auth_passed (sample_env\<lparr>GOOGLE_CHAT_WEBHOOK_URL := None\<rparr>) (sample_lib 200)
     (sample_event ''dXNlcjpwYTpzcw=='' None) \<and>
   body (sample_event ''dXNlcjpwYTpzcw=='' None) = None \<and>
   json_loads (sample_lib 200) (u ''{}'') = Inr (JObj []) \<and>
   handler (sample_env\<lparr>GOOGLE_CHAT_WEBHOOK_URL := None\<rparr>) (sample_lib 200)
     (sample_event ''dXNlcjpwYTpzcw=='' None) =
     respond 500 ''error'' ''Webhook processor configuration error'' \<and>
   statusCode (handler (sample_env\<lparr>GOOGLE_CHAT_WEBHOOK_URL := None\<rparr>) (sample_lib 200)
     (sample_event ''dXNlcjpwYTpzcw=='' None)) \<noteq> 200"
proof -
  have l: "json_loads (sample_lib 200) (case body (sample_event ''dXNlcjpwYTpzcw=='' None) of
      None \<Rightarrow> u ''{}'' | Some b \<Rightarrow> b) = Inr (JObj [])"
    by (simp add: sample_loads_simps)
  have h: "handler (sample_env\<lparr>GOOGLE_CHAT_WEBHOOK_URL := None\<rparr>) (sample_lib 200)
     (sample_event ''dXNlcjpwYTpzcw=='' None) =
     respond 500 ''error'' ''Webhook processor configuration error''"
    using auth_passed_no_url[of 200 None]
    by (simp add: handler_post[OF sample_event_simps(1)] process_payload_loaded[OF l] env_truthy_def)
  then have "statusCode (handler (sample_env\<lparr>GOOGLE_CHAT_WEBHOOK_URL := None\<rparr>) (sample_lib 200)
     (sample_event ''dXNlcjpwYTpzcw=='' None)) \<noteq> 200"
    by (simp add: respond_def)
  with h auth_passed_no_url[of 200 None] show ?thesis by (simp add: sample_loads_simps)
qed

text \<open>
  Claim C10, as amended. With the chat webhook URL not set (or empty), every authenticated POST whose
  body is valid JSON is answered with status 500, whatever the event type: the check of
  line 208 comes before the formatter is called. When the body is a JSON object the
  response is the configuration error; when it is another JSON value, line 206 raises
  first and the response is the internal-error 500.
\<close>

theorem missing_url:
  assumes "httpMethod ev = Some (u ''POST'')" "auth_passed E L ev"
    "\<not> env_truthy (GOOGLE_CHAT_WEBHOOK_URL E)"
    "json_loads L (case body ev of None \<Rightarrow> u ''{}'' | Some b \<Rightarrow> b) = Inr payload"
  shows
    "statusCode (handler E L ev) = 500 \<and>
     (is_obj payload \<longrightarrow>
        handler E L ev = respond 500 ''error'' ''Webhook processor configuration error'') \<and>
     (\<not> is_obj payload \<longrightarrow>
        handler E L ev = respond 500 ''error'' ''Internal Server Error processing webhook'')"
proof (cases "is_obj payload")
  case True
  then have "handler E L ev = respond 500 ''error'' ''Webhook processor configuration error''"
    using assms(2,3)
    by (simp add: handler_post[OF assms(1)] process_payload_loaded[OF assms(4)] py_get_obj)
  with True show ?thesis by (simp add: respond_def)
next
  case False
  then have "handler E L ev = respond 500 ''error'' ''Internal Server Error processing webhook''"
    using assms(2)
    by (simp add: handler_post[OF assms(1)] process_payload_loaded[OF assms(4)] py_get_not_obj)
  with False show ?thesis by (simp add: respond_def)
qed

lemma format_build_event:
  "format_ado_event_card (JObj [(u ''eventType'', JStr (u ''build.complete''))]) = Inr None"
  by (simp add: format_ado_event_card_def top_project_name_def)

lemma unrecognised_event_with_url:
  "handler sample_env (sample_lib 200) (sample_event ''dXNlcjpwYTpzcw=='' (Some (u ''build''))) =
     respond 200 ''success'' ''Webhook received, no notification required''"
proof -
  have l: "json_loads (sample_lib 200)
      (case body (sample_event ''dXNlcjpwYTpzcw=='' (Some (u ''build''))) of None \<Rightarrow> u ''{}'' | Some b \<Rightarrow> b) =
      Inr (JObj [(u ''eventType'', JStr (u ''build.complete''))])"
    by (simp add: sample_loads_simps)
  show ?thesis
    using sample_auth_passed[of 200 "Some (u ''build'')"]
    by (simp add: handler_post[OF sample_event_simps(1)] process_payload_loaded[OF l]
        format_build_event env_truthy_def no_notification_def)
qed

theorem missing_url_witness:
  "httpMethod (sample_event ''dXNlcjpwYTpzcw=='' (Some (u ''build''))) = Some (u ''POST'') \<and>
   auth_passed (sample_env\<lparr>GOOGLE_CHAT_WEBHOOK_URL := None\<rparr>) (sample_lib 200)
     (sample_event ''dXNlcjpwYTpzcw=='' (Some (u ''build''))) \<and>
   \<not> env_truthy (GOOGLE_CHAT_WEBHOOK_URL (sample_env\<lparr>GOOGLE_CHAT_WEBHOOK_URL := None\<rparr>)) \<and>
   json_loads (sample_lib 200) (u ''build'') = Inr (JObj [(u ''eventType'', JStr (u ''build.complete''))]) \<and>
   is_obj (JObj [(u ''eventType'', JStr (u ''build.complete''))]) \<and>
   handler (sample_env\<lparr>GOOGLE_CHAT_WEBHOOK_URL := None\<rparr>) (sample_lib 200)
     (sample_event ''dXNlcjpwYTpzcw=='' (Some (u ''build''))) =
     respond 500 ''error'' ''Webhook processor configuration error'' \<and>
   statusCode (handler (sample_env\<lparr>GOOGLE_CHAT_WEBHOOK_URL := None\<rparr>) (sample_lib 200)
     (sample_event ''dXNlcjpwYTpzcw=='' (Some (u ''build'')))) = 500 \<and>
   handler sample_env (sample_lib 200) (sample_event ''dXNlcjpwYTpzcw=='' (Some (u ''build''))) =
     respond 200 ''success'' ''Webhook received, no notification required'' \<and>
   json_loads (sample_lib 200) (u ''[]'') = Inr (JArr []) \<and> \<not> is_obj (JArr []) \<and>
   handler (sample_env\<lparr>GOOGLE_CHAT_WEBHOOK_URL := None\<rparr>) (sample_lib 200)
     (sample_event ''dXNlcjpwYTpzcw=='' (Some (u ''[]''))) =
     respond 500 ''error'' ''Internal Server Error processing webhook''"
proof -
  have nourl: "\<not> env_truthy (GOOGLE_CHAT_WEBHOOK_URL (sample_env\<lparr>GOOGLE_CHAT_WEBHOOK_URL := None\<rparr>))"
    by (simp add: env_truthy_def)
  have l1: "json_loads (sample_lib 200)
      (case body (sample_event ''dXNlcjpwYTpzcw=='' (Some (u ''build''))) of None \<Rightarrow> u ''{}'' | Some b \<Rightarrow> b) =
      Inr (JObj [(u ''eventType'', JStr (u ''build.complete''))])"
    by (simp add: sample_loads_simps)
  have l2: "json_loads (sample_lib 200)
      (case body (sample_event ''dXNlcjpwYTpzcw=='' (Some (u ''[]''))) of None \<Rightarrow> u ''{}'' | Some b \<Rightarrow> b) =
      Inr (JArr [])"
    by (simp add: sample_loads_simps)
  note a = missing_url[OF sample_event_simps(1) auth_passed_no_url nourl l1]
  note b = missing_url[OF sample_event_simps(1) auth_passed_no_url nourl l2]
  have o1: "is_obj (JObj [(u ''eventType'', JStr (u ''build.complete''))])" by (simp add: is_obj_def)
  have o2: "\<not> is_obj (JArr [])" by (simp add: is_obj_def)
  from a o1 have 1: "handler (sample_env\<lparr>GOOGLE_CHAT_WEBHOOK_URL := None\<rparr>) (sample_lib 200)
     (sample_event ''dXNlcjpwYTpzcw=='' (Some (u ''build''))) =
     respond 500 ''error'' ''Webhook processor configuration error''" by blast
  from a have 2: "statusCode (handler (sample_env\<lparr>GOOGLE_CHAT_WEBHOOK_URL := None\<rparr>) (sample_lib 200)
     (sample_event ''dXNlcjpwYTpzcw=='' (Some (u ''build'')))) = 500" by blast
  from b o2 have 3: "handler (sample_env\<lparr>GOOGLE_CHAT_WEBHOOK_URL := None\<rparr>) (sample_lib 200)
     (sample_event ''dXNlcjpwYTpzcw=='' (Some (u ''[]''))) =
     respond 500 ''error'' ''Internal Server Error processing webhook''" by blast
  from 1 2 3 o1 o2 nourl auth_passed_no_url[of 200 "Some (u ''build'')"] unrecognised_event_with_url
  show ?thesis by (simp add: sample_loads_simps)
qed

text \<open>
  Claim C10 as stated fails: with the URL not set, the body \<open>[]\<close> is valid JSON and the
  response is not the configuration error. \<open>payload.get\<close> of line 206 raises
  \<open>AttributeError\<close> before the check of line 208, and the handler answers with the
  internal-error 500, as it does for this body when the URL is set.
\<close>

theorem non_object_body_is_internal_error:
  "httpMethod (sample_event ''dXNlcjpwYTpzcw=='' (Some (u ''[]''))) = Some (u ''POST'') \<and>
   auth_passed (sample_env\<lparr>GOOGLE_CHAT_WEBHOOK_URL := None\<rparr>) (sample_lib 200)
     (sample_event ''dXNlcjpwYTpzcw=='' (Some (u ''[]''))) \<and>
   json_loads (sample_lib 200) (u ''[]'') = Inr (JArr []) \<and>
   handler (sample_env\<lparr>GOOGLE_CHAT_WEBHOOK_URL := None\<rparr>) (sample_lib 200)
     (sample_event ''dXNlcjpwYTpzcw=='' (Some (u ''[]''))) =
     respond 500 ''error'' ''Internal Server Error processing webhook'' \<and>
   respond 500 ''error'' ''Internal Server Error processing webhook'' \<noteq>
     respond 500 ''error'' ''Webhook processor configuration error'' \<and>
   handler sample_env (sample_lib 200) (sample_event ''dXNlcjpwYTpzcw=='' (Some (u ''[]''))) =
     respond 500 ''error'' ''Internal Server Error processing webhook''"
proof -
  have l: "\<And>code. json_loads (sample_lib code)
      (case body (sample_event ''dXNlcjpwYTpzcw=='' (Some (u ''[]''))) of None \<Rightarrow> u ''{}'' | Some b \<Rightarrow> b) =
      Inr (JArr [])"
    by (simp add: sample_loads_simps)
  have no: "\<not> is_obj (JArr [])" by (simp add: is_obj_def)
  have 1: "handler (sample_env\<lparr>GOOGLE_CHAT_WEBHOOK_URL := None\<rparr>) (sample_lib 200)
     (sample_event ''dXNlcjpwYTpzcw=='' (Some (u ''[]''))) =
     respond 500 ''error'' ''Internal Server Error processing webhook''"
    using auth_passed_no_url[of 200 "Some (u ''[]'')"] no
    by (simp add: handler_post[OF sample_event_simps(1)] process_payload_loaded[OF l] py_get_not_obj)
  have 2: "handler sample_env (sample_lib 200) (sample_event ''dXNlcjpwYTpzcw=='' (Some (u ''[]''))) =
     respond 500 ''error'' ''Internal Server Error processing webhook''"
    using sample_auth_passed[of 200 "Some (u ''[]'')"] no
    by (simp add: handler_post[OF sample_event_simps(1)] process_payload_loaded[OF l] py_get_not_obj)
  have 3: "respond 500 ''error'' ''Internal Server Error processing webhook'' \<noteq>
     respond 500 ''error'' ''Webhook processor configuration error''"
    by (simp add: respond_def)
  from 1 2 3 auth_passed_no_url[of 200 "Some (u ''[]'')"] show ?thesis
    by (simp add: sample_loads_simps)
qed

end
